theory Spec2Isabelle
  imports Complex_Main "HOL-Library.Log_Nat"
begin

section \<open>JavaScript numbers\<close>

text \<open>
  A JavaScript number is an IEEE 754 double. The model represents a finite double by the
  rational it denotes and rounds the exact result of every arithmetic operation to the
  nearest number with a 53-bit significand, ties to the even significand. The exponent is
  not bounded: overflow to \<open>Infinity\<close>, subnormal numbers, \<open>NaN\<close> and the sign of zero
  are outside the model.

  \<open>binade x\<close> is the exponent \<open>e\<close> with \<open>2^e \<le> |x| < 2^(e+1)\<close>; \<open>double x\<close> is the
  double nearest to \<open>x\<close>. A decimal literal of the source such as \<open>1.3\<close> denotes
  \<open>double (13 / 10)\<close>. Rounding is visible in results: \<open>(23 / 40) * 100\<close> evaluates to
  the double just below 57.5, not to 57.5 (lemma \<open>percentage_below_tie\<close>). Integers are
  doubles without error below \<open>2^53\<close>; counters, indices and timestamps are modelled as
  unbounded integers.
\<close>

definition pow2 :: "int \<Rightarrow> rat" where
  "pow2 e = (if 0 \<le> e then 2 ^ nat e else 1 / 2 ^ nat (- e))"

definition binade :: "rat \<Rightarrow> int" where
  "binade x =
     (let a = \<bar>x\<bar>
      in if 1 \<le> a then bitlen \<lfloor>a\<rfloor> - 1 else - bitlen (\<lceil>1 / a\<rceil> - 1))"

definition roundEven :: "rat \<Rightarrow> int" where
  "roundEven y =
     (let f = \<lfloor>y\<rfloor>; d = y - of_int f
      in if d < 1 / 2 then f
         else if 1 / 2 < d then f + 1
         else if even f then f else f + 1)"

definition double :: "rat \<Rightarrow> rat" where
  "double x =
     (if x = 0 then 0
      else (let ulp = pow2 (binade x - 52) in of_int (roundEven (x / ulp)) * ulp))"

definition fadd :: "rat \<Rightarrow> rat \<Rightarrow> rat" where "fadd a b = double (a + b)"
definition fsub :: "rat \<Rightarrow> rat \<Rightarrow> rat" where "fsub a b = double (a - b)"
definition fmul :: "rat \<Rightarrow> rat \<Rightarrow> rat" where "fmul a b = double (a * b)"
definition fdiv :: "rat \<Rightarrow> rat \<Rightarrow> rat" where "fdiv a b = double (a / b)"

text \<open>
  \<open>Math.round x\<close> is \<open>round x\<close>, that is \<open>\<lfloor>x + 1/2\<rfloor>\<close>: the nearest integer, a tie going
  up. \<open>Math.max\<close> is \<open>max\<close>.
\<close>

section \<open>Dates\<close>

text \<open>
  A time value is a number of milliseconds since the epoch. A \<open>Date\<close> holds a time value
  of at most 8.64e15 in absolute value; \<open>new Date(t)\<close> with any other \<open>t\<close> is an invalid
  date, whose \<open>toISOString()\<close> throws a RangeError. The type \<open>Date\<close> is the valid dates:
  what \<open>new Date()\<close> reads from the clock. \<open>getTime\<close> is the time value of a date and
  \<open>newDate t\<close> the date of a valid time value \<open>t\<close>.
\<close>

definition validTime :: "int \<Rightarrow> bool" where
  "validTime t = (- 8640000000000000 \<le> t \<and> t \<le> 8640000000000000)"

typedef Date = "{t :: int. validTime t}"
  morphisms getTime newDate
  by (rule exI[of _ 0]) (simp add: validTime_def)

section \<open>The learning module: SM-2 scheduling and the session (learn.js)\<close>

text \<open>
  A learning object. \<open>easeFactor\<close> is a double, \<open>interval\<close> an integer number of days, the
  two counters are naturals. A stored timestamp is the time value that the ISO string
  denotes; \<open>None\<close> stands for \<open>null\<close> or an absent field, which the program tests alike
  (both are falsy).

  \<open>level\<close> is the field the stores compare with \<open>=== 0\<close> and use as an array index; the
  scheduler never reads it from its argument. \<open>None\<close> models a stored object whose
  \<open>level\<close> field is missing (\<open>undefined\<close>).
\<close>

record LearningState =
  level :: "nat option"
  easeFactor :: rat
  interval :: int
  lastReviewedAt :: "int option"
  nextReviewAt :: "int option"
  reviewCount :: nat
  correctCount :: nat

definition DEFAULT_LEARNING :: LearningState where
  "DEFAULT_LEARNING =
     \<lparr> level = Some 0, easeFactor = double (5 / 2), interval = 0, lastReviewedAt = None,
       nextReviewAt = None, reviewCount = 0, correctCount = 0 \<rparr>"

text \<open>The threshold table: (minInterval, level, name), highest threshold first.\<close>

definition LEVEL_THRESHOLDS :: "(int \<times> nat \<times> string) list" where
  "LEVEL_THRESHOLDS =
     [(21, 5, ''Mastered''), (14, 4, ''Confident''), (7, 3, ''Familiar''),
      (1, 2, ''Reviewing''), (0, 1, ''Learning'')]"

definition FORGOT :: nat where "FORGOT = 1"
definition HARD :: nat where "HARD = 2"
definition GOOD :: nat where "GOOD = 3"
definition EASY :: nat where "EASY = 4"

text \<open>\<open>calculateLevel\<close>: the \<open>for ... of\<close> loop over the table; the first match returns.\<close>

fun firstThreshold :: "(int \<times> nat \<times> string) list \<Rightarrow> int \<Rightarrow> nat" where
  "firstThreshold [] i = 0"
| "firstThreshold ((minInterval, lvl, name) # rest) i =
     (if i \<ge> minInterval then lvl else firstThreshold rest i)"

definition calculateLevel :: "int \<Rightarrow> nat" where
  "calculateLevel i = firstThreshold LEVEL_THRESHOLDS i"

text \<open>The exceptions the modelled code throws.\<close>

datatype error = InvalidCategory string | TypeError | RangeError

text \<open>
  \<open>calculateNextReview\<close>. The source reads the clock itself (\<open>new Date()\<close>); here the
  date \<open>now\<close> is a parameter. A day is \<open>24 * 60 * 60 * 1000\<close> ms. The next review time
  is made into a date and written with \<open>toISOString()\<close>, which throws a RangeError when
  the time is outside the range of dates; nothing is returned then.
\<close>

definition calculateNextReview :: "Date \<Rightarrow> LearningState \<Rightarrow> nat \<Rightarrow> error + LearningState" where
  "calculateNextReview now learning grade =
     (let easeFactor0 = easeFactor learning;
          interval0 = interval learning;
          reviewCount1 = reviewCount learning + 1;
          (easeFactor1, interval1, correctCount1) =
            (if grade = FORGOT then
               (max (double (13 / 10)) (fsub easeFactor0 (double (2 / 10))), 0,
                correctCount learning)
             else
               (let interval1 =
                      (if interval0 = 0 then 1
                       else if interval0 = 1 then 6
                       else round (fmul (of_int interval0) easeFactor0));
                    easeFactor1 =
                      (if grade = HARD then
                         max (double (13 / 10)) (fsub easeFactor0 (double (15 / 100)))
                       else if grade = EASY then fadd easeFactor0 (double (15 / 100))
                       else easeFactor0)
                in (easeFactor1, interval1, correctCount learning + 1)));
          level1 = calculateLevel interval1;
          nextReviewAt1 = getTime now + interval1 * 24 * 60 * 60 * 1000
      in if \<not> validTime nextReviewAt1 then Inl RangeError
         else Inr \<lparr> level = Some level1,
                    easeFactor = easeFactor1,
                    interval = interval1,
                    lastReviewedAt = Some (getTime now),
                    nextReviewAt = Some nextReviewAt1,
                    reviewCount = reviewCount1,
                    correctCount = correctCount1 \<rparr>)"

text \<open>
  A word's history: each review is a pair (date of the review, grade), applied in order
  to the state the previous review returned; an exception ends the history.
\<close>

fun applyReviews :: "LearningState \<Rightarrow> (Date \<times> nat) list \<Rightarrow> error + LearningState" where
  "applyReviews s [] = Inr s"
| "applyReviews s ((now, grade) # rest) =
     (case calculateNextReview now s grade of
        Inl e \<Rightarrow> Inl e
      | Inr s1 \<Rightarrow> applyReviews s1 rest)"

subsection \<open>Word entries and the learning session\<close>

text \<open>
  A word entry: the word, its display data (pronunciation, definitions, examples and so
  on, which the core only passes through) and the learning object, which an entry of an
  old notebook file or of a category word list does not have.
\<close>

record 'd WordEntry =
  word :: string
  details :: 'd
  learning :: "LearningState option"

text \<open>An element of \<open>results\<close>; \<open>resultWord\<close> is its field \<open>word\<close>.\<close>

record SessionResult =
  resultWord :: string
  grade :: nat
  wasRevealed :: bool

record 'd LearningSession =
  words :: "'d WordEntry list"
  currentIndex :: nat
  results :: "SessionResult list"
  revealed :: bool

record SessionStats =
  reviewed :: nat
  correct :: nat
  needPractice :: nat
  percentage :: int

definition newLearningSession :: "'d WordEntry list \<Rightarrow> 'd LearningSession" where
  "newLearningSession ws = \<lparr> words = ws, currentIndex = 0, results = [], revealed = False \<rparr>"

definition totalWords :: "'d LearningSession \<Rightarrow> nat" where
  "totalWords session = length (words session)"

text \<open>\<open>this.words[this.currentIndex] || null\<close>: \<open>None\<close> is \<open>null\<close>.\<close>

definition currentWord :: "'d LearningSession \<Rightarrow> 'd WordEntry option" where
  "currentWord session =
     (if currentIndex session < length (words session)
      then Some (words session ! currentIndex session) else None)"

definition isComplete :: "'d LearningSession \<Rightarrow> bool" where
  "isComplete session = (currentIndex session \<ge> length (words session))"

definition reveal :: "'d LearningSession \<Rightarrow> 'd LearningSession" where
  "reveal session = session\<lparr>revealed := True\<rparr>"

text \<open>
  \<open>recordGrade\<close> builds the result object before it pushes it: reading \<open>.word\<close> of a
  \<open>null\<close> current word throws a TypeError, and nothing of the session has changed then.
\<close>

definition recordGrade :: "'d LearningSession \<Rightarrow> nat \<Rightarrow> error + 'd LearningSession" where
  "recordGrade session g =
     (case currentWord session of
        None \<Rightarrow> Inl TypeError
      | Some w \<Rightarrow>
          Inr (session\<lparr> results := results session @
                           [\<lparr> resultWord = word w, grade = g, wasRevealed = revealed session \<rparr>],
                        currentIndex := currentIndex session + 1,
                        revealed := False \<rparr>))"

definition getStats :: "'d LearningSession \<Rightarrow> SessionStats" where
  "getStats session =
     (let correct1 = length (filter (\<lambda>r. grade r \<ge> GOOD) (results session));
          needPractice1 = length (filter (\<lambda>r. grade r < GOOD) (results session))
      in \<lparr> reviewed = length (results session),
           correct = correct1,
           needPractice = needPractice1,
           percentage =
             (if length (results session) > 0
              then round (fmul (fdiv (of_nat correct1) (of_nat (length (results session)))) 100)
              else 0) \<rparr>)"

subsection \<open>The caller of the session (repl.js)\<close>

datatype SelectionState =
    NONE | WORD_ACTIONS | NOTEBOOK_LIST | LEARN_MENU
  | FLASHCARD_FRONT | FLASHCARD_BACK | SESSION_COMPLETE
  | CET_EXTRACT_CONFIRM | CET_MENU
  | CET_FLASHCARD_FRONT | CET_FLASHCARD_BACK | CET_SESSION_COMPLETE

text \<open>
  \<open>showCurrentFlashcard\<close> and its twin for a category session, as far as the state they
  leave in \<open>pendingSelection\<close>; what they print is left out.
\<close>

definition showCurrentFlashcard :: "'d LearningSession \<Rightarrow> SelectionState" where
  "showCurrentFlashcard session =
     (if isComplete session then SESSION_COMPLETE else FLASHCARD_FRONT)"

definition showCETCurrentFlashcard :: "'d LearningSession \<Rightarrow> SelectionState" where
  "showCETCurrentFlashcard session =
     (if isComplete session then CET_SESSION_COMPLETE else CET_FLASHCARD_FRONT)"

text \<open>
  The value \<open>newLearning\<close> of the two grade handlers (\<open>handleFlashcardBackSelection\<close> and
  its twin): for a grade from 1 to 4, \<open>calculateNextReview(word.learning, grade)\<close> of the
  current word; no value for any other input. Reading \<open>.learning\<close> of a \<open>null\<close> word
  and destructuring a missing learning object throw a TypeError. What the handlers do
  with the value (write it to the store, record the grade, print) is left out.
\<close>

definition newLearning :: "Date \<Rightarrow> 'd LearningSession \<Rightarrow> nat \<Rightarrow> error + LearningState option" where
  "newLearning now session g =
     (if g \<ge> FORGOT \<and> g \<le> EASY then
        (case currentWord session of
           None \<Rightarrow> Inl TypeError
         | Some w \<Rightarrow>
             (case learning w of
                None \<Rightarrow> Inl TypeError
              | Some l \<Rightarrow>
                  (case calculateNextReview now l g of
                     Inl e \<Rightarrow> Inl e
                   | Inr l1 \<Rightarrow> Inr (Some l1))))
      else Inr None)"

section \<open>Selection and statistics over the two word sources\<close>

text \<open>
  \<open>Array.prototype.slice(0, n)\<close>: a negative end counts from the end of the array.
\<close>

definition slice0 :: "'a list \<Rightarrow> int \<Rightarrow> 'a list" where
  "slice0 xs n =
     (if n < 0 then take (nat (int (length xs) + n)) xs else take (nat n) xs)"

text \<open>
  A counter of a statistics object: a number, \<open>NaN\<close>, or nothing at all (a hole of the
  array \<open>byLevel\<close>, or a property the object does not have). \<open>++\<close> on nothing stores
  \<open>NaN\<close>. A write beyond the end extends a JavaScript array and leaves holes. With an
  \<open>undefined\<close> level, \<open>byLevel[undefined]++\<close> sets a property named \<open>undefined\<close> and
  touches no element.
\<close>

datatype slot = Count nat | NaN | Hole

fun increment :: "slot \<Rightarrow> slot" where
  "increment (Count n) = Count (n + 1)"
| "increment NaN = NaN"
| "increment Hole = NaN"

definition bumpLevel :: "slot list \<Rightarrow> nat option \<Rightarrow> slot list" where
  "bumpLevel xs lv =
     (case lv of
        None \<Rightarrow> xs
      | Some i \<Rightarrow>
          if i < length xs then xs[i := increment (xs ! i)]
          else xs @ replicate (i - length xs) Hole @ [NaN])"

text \<open>
  The statistics object of either source. The notebook's object has no property
  \<open>mastered\<close>: its field is \<open>Hole\<close>.
\<close>

record LearningStats =
  total' :: nat
  byLevel :: "slot list"
  dueToday :: nat
  newAvailable :: nat
  mastered :: slot

subsection \<open>The notebook (api.js)\<close>

text \<open>
  The notebook is its array \<open>this.words\<close>. The two queries call
  \<open>ensureLearningFields\<close> on every entry, which writes to the entry, so each returns its
  result together with the array as it is afterwards. Reading a field of a missing
  learning object would throw a TypeError.
\<close>

definition ensureLearningFields :: "'d WordEntry \<Rightarrow> 'd WordEntry" where
  "ensureLearningFields entry =
     (case learning entry of
        None \<Rightarrow> entry\<lparr>learning := Some DEFAULT_LEARNING\<rparr>
      | Some l \<Rightarrow> entry)"

text \<open>
  The loop of \<open>Notebook.getWordsForLearning\<close>; \<open>seen\<close> collects the entries already
  visited, as the loop leaves them.
\<close>

fun Notebook_selectLoop ::
  "int \<Rightarrow> 'd WordEntry list \<Rightarrow> 'd WordEntry list \<Rightarrow> 'd WordEntry list \<Rightarrow> 'd WordEntry list \<Rightarrow>
   error + ('d WordEntry list \<times> 'd WordEntry list \<times> 'd WordEntry list)" where
  "Notebook_selectLoop now [] seen dueWords newWords = Inr (seen, dueWords, newWords)"
| "Notebook_selectLoop now (w # rest) seen dueWords newWords =
     (let w1 = ensureLearningFields w
      in case learning w1 of
           None \<Rightarrow> Inl TypeError
         | Some l \<Rightarrow>
             if level l = Some 0 then
               Notebook_selectLoop now rest (seen @ [w1]) dueWords (newWords @ [w1])
             else
               (case nextReviewAt l of
                  None \<Rightarrow> Notebook_selectLoop now rest (seen @ [w1]) dueWords newWords
                | Some nextReview \<Rightarrow>
                    if nextReview \<le> now then
                      Notebook_selectLoop now rest (seen @ [w1]) (dueWords @ [w1]) newWords
                    else Notebook_selectLoop now rest (seen @ [w1]) dueWords newWords))"

text \<open>
  \<open>maxNewWords\<close> is \<open>None\<close> when the caller passes no argument; the default is 10. The
  result is the selection and the notebook's array.
\<close>

definition Notebook_getWordsForLearning ::
  "int \<Rightarrow> 'd WordEntry list \<Rightarrow> int option \<Rightarrow> error + ('d WordEntry list \<times> 'd WordEntry list)" where
  "Notebook_getWordsForLearning now ws maxNewWords =
     (case Notebook_selectLoop now ws [] [] [] of
        Inl e \<Rightarrow> Inl e
      | Inr (ws1, dueWords, newWords) \<Rightarrow>
          (let selectedNew = slice0 newWords (case maxNewWords of None \<Rightarrow> 10 | Some n \<Rightarrow> n)
           in Inr (dueWords @ selectedNew, ws1)))"

fun Notebook_statsLoop ::
  "int \<Rightarrow> 'd WordEntry list \<Rightarrow> 'd WordEntry list \<Rightarrow> LearningStats \<Rightarrow>
   error + (LearningStats \<times> 'd WordEntry list)" where
  "Notebook_statsLoop now [] seen stats = Inr (stats, seen)"
| "Notebook_statsLoop now (w # rest) seen stats =
     (let w1 = ensureLearningFields w
      in case learning w1 of
           None \<Rightarrow> Inl TypeError
         | Some l \<Rightarrow>
             (let stats1 = stats\<lparr>byLevel := bumpLevel (byLevel stats) (level l)\<rparr>;
                  stats2 =
                    (if level l = Some 0 then stats1\<lparr>newAvailable := newAvailable stats1 + 1\<rparr>
                     else
                       (case nextReviewAt l of
                          None \<Rightarrow> stats1
                        | Some nextReview \<Rightarrow>
                            if nextReview \<le> now then stats1\<lparr>dueToday := dueToday stats1 + 1\<rparr>
                            else stats1))
              in Notebook_statsLoop now rest (seen @ [w1]) stats2))"

definition Notebook_getLearningStats ::
  "int \<Rightarrow> 'd WordEntry list \<Rightarrow> error + (LearningStats \<times> 'd WordEntry list)" where
  "Notebook_getLearningStats now ws =
     Notebook_statsLoop now ws []
       \<lparr> total' = length ws, byLevel = [Count 0, Count 0, Count 0, Count 0, Count 0, Count 0],
         dueToday = 0, newAvailable = 0, mastered = Hole \<rparr>"

subsection \<open>The category store (cet.js)\<close>

text \<open>
  The data directory: for a category, the extracted word list file and the progress file,
  each of which may not exist. Of a progress file only its object \<open>words\<close> is modelled:
  its own properties, keyed by the lower-cased word.

  \<open>String.prototype.toLowerCase\<close> is a parameter \<open>toLowerCase\<close> of every function that
  calls it: the theorems hold for every function from strings to strings.

  \<open>progress.words\<close> is a plain object, so \<open>progress.words[key]\<close> finds the members of
  \<open>Object.prototype\<close> under their names when the object has no own property \<open>key\<close>.
  Each of them is truthy (a function, or \<open>Object.prototype\<close> itself for \<open>__proto__\<close>) and
  has none of the fields of a learning object.
\<close>

record 'd CetFiles =
  wordListFile :: "string \<Rightarrow> 'd WordEntry list option"
  progressFile :: "string \<Rightarrow> (string \<Rightarrow> LearningState option) option"

definition CATEGORIES :: "string list" where
  "CATEGORIES = [''cet4'', ''cet6'']"

definition OBJECT_PROTOTYPE_KEYS :: "string list" where
  "OBJECT_PROTOTYPE_KEYS =
     [''constructor'', ''__defineGetter__'', ''__defineSetter__'', ''hasOwnProperty'',
      ''__lookupGetter__'', ''__lookupSetter__'', ''isPrototypeOf'', ''propertyIsEnumerable'',
      ''toString'', ''valueOf'', ''__proto__'', ''toLocaleString'']"

definition getWordList :: "'d CetFiles \<Rightarrow> string \<Rightarrow> error + 'd WordEntry list option" where
  "getWordList fs category =
     (if category \<notin> set CATEGORIES then Inl (InvalidCategory category)
      else Inr (wordListFile fs category))"

definition getProgress :: "'d CetFiles \<Rightarrow> string \<Rightarrow> error + (string \<Rightarrow> LearningState option)" where
  "getProgress fs category =
     (if category \<notin> set CATEGORIES then Inl (InvalidCategory category)
      else Inr (case progressFile fs category of None \<Rightarrow> Map.empty | Some p \<Rightarrow> p))"

text \<open>
  The value of \<open>progress.words[key] || { ...DEFAULT_LEARNING }\<close>: a learning object (the
  stored one, or a copy of the default when the lookup finds nothing), or a member of
  \<open>Object.prototype\<close>.
\<close>

datatype learningValue = Learning (stateOf: LearningState) | PrototypeMember

definition progressLearning :: "(string \<Rightarrow> LearningState option) \<Rightarrow> string \<Rightarrow> learningValue" where
  "progressLearning progress key =
     (case progress key of
        Some l \<Rightarrow> Learning l
      | None \<Rightarrow>
          if key \<in> set OBJECT_PROTOTYPE_KEYS then PrototypeMember
          else Learning DEFAULT_LEARNING)"

text \<open>\<open>getWordLearningState\<close>: the value found for one word.\<close>

definition getWordLearningState ::
  "(string \<Rightarrow> string) \<Rightarrow> 'd CetFiles \<Rightarrow> string \<Rightarrow> string \<Rightarrow> error + learningValue" where
  "getWordLearningState toLowerCase fs category w =
     (case getProgress fs category of
        Inl e \<Rightarrow> Inl e
      | Inr progress \<Rightarrow> Inr (progressLearning progress (toLowerCase w)))"

text \<open>
  The loop of \<open>getWordsForLearning\<close>. A member of \<open>Object.prototype\<close> has no \<open>level\<close>
  and no \<open>nextReviewAt\<close>: the word is pushed to neither array, and the copy of the entry
  made for it is dropped.
\<close>

fun selectLoop ::
  "(string \<Rightarrow> string) \<Rightarrow> int \<Rightarrow> (string \<Rightarrow> LearningState option) \<Rightarrow> 'd WordEntry list \<Rightarrow>
   'd WordEntry list \<Rightarrow> 'd WordEntry list \<Rightarrow> 'd WordEntry list \<times> 'd WordEntry list" where
  "selectLoop toLowerCase now progress [] dueWords newWords = (dueWords, newWords)"
| "selectLoop toLowerCase now progress (wordEntry # rest) dueWords newWords =
     (let wordKey = toLowerCase (word wordEntry)
      in case progressLearning progress wordKey of
           PrototypeMember \<Rightarrow> selectLoop toLowerCase now progress rest dueWords newWords
         | Learning l \<Rightarrow>
             (let wordWithLearning = wordEntry\<lparr>learning := Some l\<rparr>
              in if level l = Some 0 then
                   selectLoop toLowerCase now progress rest dueWords (newWords @ [wordWithLearning])
                 else
                   (case nextReviewAt l of
                      None \<Rightarrow> selectLoop toLowerCase now progress rest dueWords newWords
                    | Some nextReview \<Rightarrow>
                        if nextReview \<le> now then
                          selectLoop toLowerCase now progress rest
                            (dueWords @ [wordWithLearning]) newWords
                        else selectLoop toLowerCase now progress rest dueWords newWords)))"

definition getWordsForLearning ::
  "(string \<Rightarrow> string) \<Rightarrow> 'd CetFiles \<Rightarrow> int \<Rightarrow> string \<Rightarrow> int option \<Rightarrow> error + 'd WordEntry list" where
  "getWordsForLearning toLowerCase fs now category maxNewWords =
     (case getWordList fs category of
        Inl e \<Rightarrow> Inl e
      | Inr None \<Rightarrow> Inr []
      | Inr (Some ws) \<Rightarrow>
          (case getProgress fs category of
             Inl e \<Rightarrow> Inl e
           | Inr progress \<Rightarrow>
               (case selectLoop toLowerCase now progress ws [] [] of
                  (dueWords, newWords) \<Rightarrow>
                    (let selectedNew =
                           slice0 newWords (case maxNewWords of None \<Rightarrow> 10 | Some n \<Rightarrow> n)
                     in Inr (dueWords @ selectedNew)))))"

text \<open>
  The loop of \<open>getLearningStats\<close>. For a member of \<open>Object.prototype\<close> the level is
  \<open>undefined\<close>, so no element of \<open>byLevel\<close> and no counter changes.
\<close>

fun statsLoop ::
  "(string \<Rightarrow> string) \<Rightarrow> int \<Rightarrow> (string \<Rightarrow> LearningState option) \<Rightarrow> 'd WordEntry list \<Rightarrow>
   LearningStats \<Rightarrow> LearningStats" where
  "statsLoop toLowerCase now progress [] stats = stats"
| "statsLoop toLowerCase now progress (wordEntry # rest) stats =
     (let wordKey = toLowerCase (word wordEntry)
      in case progressLearning progress wordKey of
           PrototypeMember \<Rightarrow> statsLoop toLowerCase now progress rest stats
         | Learning l \<Rightarrow>
             (let stats1 = stats\<lparr>byLevel := bumpLevel (byLevel stats) (level l)\<rparr>;
                  stats2 =
                    (if level l = Some 0 then stats1\<lparr>newAvailable := newAvailable stats1 + 1\<rparr>
                     else if level l = Some 5 then
                       stats1\<lparr>mastered := increment (mastered stats1)\<rparr>
                     else stats1);
                  stats3 =
                    (case nextReviewAt l of
                       None \<Rightarrow> stats2
                     | Some nextReview \<Rightarrow>
                         if nextReview \<le> now then stats2\<lparr>dueToday := dueToday stats2 + 1\<rparr>
                         else stats2)
              in statsLoop toLowerCase now progress rest stats3))"

definition getLearningStats ::
  "(string \<Rightarrow> string) \<Rightarrow> 'd CetFiles \<Rightarrow> int \<Rightarrow> string \<Rightarrow> error + LearningStats" where
  "getLearningStats toLowerCase fs now category =
     (case getWordList fs category of
        Inl e \<Rightarrow> Inl e
      | Inr None \<Rightarrow>
          Inr \<lparr> total' = 0,
                byLevel = [Count 0, Count 0, Count 0, Count 0, Count 0, Count 0],
                dueToday = 0, newAvailable = 0, mastered = Count 0 \<rparr>
      | Inr (Some ws) \<Rightarrow>
          (case getProgress fs category of
             Inl e \<Rightarrow> Inl e
           | Inr progress \<Rightarrow>
               Inr (statsLoop toLowerCase now progress ws
                      \<lparr> total' = length ws,
                        byLevel = [Count 0, Count 0, Count 0, Count 0, Count 0, Count 0],
                        dueToday = 0, newAvailable = 0, mastered = Count 0 \<rparr>)))"

section \<open>The words of the claims\<close>

text \<open>
  \<open>learningOf\<close> is the learning state of a notebook entry, the default state when the
  entry has no learning object. A word is new when its level is 0; its review is due when
  its next review time is set and not after now; it is a due word when its level is above
  0 and its review is due, and not yet due when its level is above 0 and its review is not
  due. \<open>levelInRange\<close> holds of a state that has no level above 5, and
  \<open>newHasNoReviewTime\<close> of a state that has no next review time if its level is 0.
\<close>

definition learningOf :: "'d WordEntry \<Rightarrow> LearningState" where
  "learningOf w = (case learning w of None \<Rightarrow> DEFAULT_LEARNING | Some l \<Rightarrow> l)"

definition newWord :: "LearningState \<Rightarrow> bool" where
  "newWord l = (level l = Some 0)"

definition reviewDue :: "int \<Rightarrow> LearningState \<Rightarrow> bool" where
  "reviewDue now l = (case nextReviewAt l of None \<Rightarrow> False | Some t \<Rightarrow> t \<le> now)"

definition dueWord :: "int \<Rightarrow> LearningState \<Rightarrow> bool" where
  "dueWord now l = ((case level l of None \<Rightarrow> False | Some k \<Rightarrow> 0 < k) \<and> reviewDue now l)"

definition notYetDue :: "int \<Rightarrow> LearningState \<Rightarrow> bool" where
  "notYetDue now l = ((case level l of None \<Rightarrow> False | Some k \<Rightarrow> 0 < k) \<and> \<not> reviewDue now l)"

definition hasLevel :: "nat \<Rightarrow> LearningState \<Rightarrow> bool" where
  "hasLevel k l = (level l = Some k)"

definition levelInRange :: "LearningState \<Rightarrow> bool" where
  "levelInRange l = (case level l of None \<Rightarrow> True | Some k \<Rightarrow> k \<le> 5)"

definition newHasNoReviewTime :: "LearningState \<Rightarrow> bool" where
  "newHasNoReviewTime l = (if level l = Some 0 then nextReviewAt l = None else True)"

text \<open>
  The progress object of a category (empty when there is no progress file); the value the
  category store finds for a word; \<open>plainKey\<close>, which holds of a word unless the store
  finds a member of \<open>Object.prototype\<close> for it; a word with its learning state attached,
  as the category store hands it out; \<open>plainWords\<close>, which holds of a category when
  \<open>plainKey\<close> holds of every word of its list; and the files with the progress object of
  a category completed, every key without an entry getting the default learning state.
\<close>

definition progressOf :: "'d CetFiles \<Rightarrow> string \<Rightarrow> (string \<Rightarrow> LearningState option)" where
  "progressOf fs category = (case progressFile fs category of None \<Rightarrow> Map.empty | Some p \<Rightarrow> p)"

definition wordValue ::
  "(string \<Rightarrow> string) \<Rightarrow> (string \<Rightarrow> LearningState option) \<Rightarrow> 'd WordEntry \<Rightarrow> learningValue" where
  "wordValue toLowerCase progress w = progressLearning progress (toLowerCase (word w))"

definition plainKey ::
  "(string \<Rightarrow> string) \<Rightarrow> (string \<Rightarrow> LearningState option) \<Rightarrow> 'd WordEntry \<Rightarrow> bool" where
  "plainKey toLowerCase progress w =
     (case wordValue toLowerCase progress w of Learning l \<Rightarrow> True | PrototypeMember \<Rightarrow> False)"

definition wordState ::
  "(string \<Rightarrow> string) \<Rightarrow> (string \<Rightarrow> LearningState option) \<Rightarrow> 'd WordEntry \<Rightarrow> LearningState" where
  "wordState toLowerCase progress w = stateOf (wordValue toLowerCase progress w)"

definition withLearning ::
  "(string \<Rightarrow> string) \<Rightarrow> (string \<Rightarrow> LearningState option) \<Rightarrow> 'd WordEntry \<Rightarrow> 'd WordEntry" where
  "withLearning toLowerCase progress w = w\<lparr>learning := Some (wordState toLowerCase progress w)\<rparr>"

definition plainWords :: "(string \<Rightarrow> string) \<Rightarrow> 'd CetFiles \<Rightarrow> string \<Rightarrow> bool" where
  "plainWords toLowerCase fs category =
     (case wordListFile fs category of
        None \<Rightarrow> True
      | Some ws \<Rightarrow> list_all (plainKey toLowerCase (progressOf fs category)) ws)"

definition withDefaults :: "'d CetFiles \<Rightarrow> string \<Rightarrow> 'd CetFiles" where
  "withDefaults fs category =
     fs\<lparr>progressFile := (progressFile fs)
          (category \<mapsto>
             (\<lambda>k. Some (case progressOf fs category k of
                           None \<Rightarrow> DEFAULT_LEARNING
                         | Some l \<Rightarrow> l)))\<rparr>"

text \<open>
  The session's part of answering a run of cards: each card is revealed, then graded.
\<close>

fun recordGrades :: "'d LearningSession \<Rightarrow> nat list \<Rightarrow> error + 'd LearningSession" where
  "recordGrades session [] = Inr session"
| "recordGrades session (g # gs) =
     (case recordGrade (reveal session) g of
        Inl e \<Rightarrow> Inl e
      | Inr session1 \<Rightarrow> recordGrades session1 gs)"

text \<open>
  What a run of reviews leaves of a field: the field of the final state, or the exception.
  \<open>graded\<close> is the value a grade handler computes when the current word has the learning
  state \<open>l\<close>.
\<close>

definition graded :: "Date \<Rightarrow> LearningState \<Rightarrow> nat \<Rightarrow> error + LearningState option" where
  "graded now l g =
     (if g \<ge> FORGOT \<and> g \<le> EASY then
        (case calculateNextReview now l g of Inl e \<Rightarrow> Inl e | Inr l1 \<Rightarrow> Inr (Some l1))
      else Inr None)"


definition outcome :: "(LearningState \<Rightarrow> 'a) \<Rightarrow> error + LearningState \<Rightarrow> error + 'a" where
  "outcome field r = (case r of Inl e \<Rightarrow> Inl e | Inr s \<Rightarrow> Inr (field s))"

section \<open>Example data\<close>

text \<open>
  The lower-casing of the examples: \<open>toLowerCase\<close> on strings of ASCII characters.
\<close>

definition asciiLower :: "string \<Rightarrow> string" where
  "asciiLower s =
     map (\<lambda>c. case map_of (zip ''ABCDEFGHIJKLMNOPQRSTUVWXYZ'' ''abcdefghijklmnopqrstuvwxyz'') c of
                 None \<Rightarrow> c
               | Some lower \<Rightarrow> lower) s"

text \<open>A session of three fresh words, and the session after the grades Good, Easy, Forgot.\<close>

definition exampleWords :: "unit WordEntry list" where
  "exampleWords =
     [\<lparr> word = ''apple'', details = (), learning = Some DEFAULT_LEARNING \<rparr>,
      \<lparr> word = ''brisk'', details = (), learning = Some DEFAULT_LEARNING \<rparr>,
      \<lparr> word = ''cedar'', details = (), learning = Some DEFAULT_LEARNING \<rparr>]"

definition exampleSessionDone :: "unit LearningSession" where
  "exampleSessionDone =
     \<lparr> words = exampleWords, currentIndex = 3,
       results = [\<lparr> resultWord = ''apple'', grade = GOOD, wasRevealed = True \<rparr>,
                  \<lparr> resultWord = ''brisk'', grade = EASY, wasRevealed = True \<rparr>,
                  \<lparr> resultWord = ''cedar'', grade = FORGOT, wasRevealed = True \<rparr>],
       revealed = False \<rparr>"

text \<open>A finished session of forty cards, twenty-three of them graded Good.\<close>

definition fortyCards :: "unit LearningSession" where
  "fortyCards =
     \<lparr> words = replicate 40 \<lparr> word = ''apple'', details = (), learning = Some DEFAULT_LEARNING \<rparr>,
       currentIndex = 40,
       results = replicate 23 \<lparr> resultWord = ''apple'', grade = GOOD, wasRevealed = True \<rparr>
                 @ replicate 17 \<lparr> resultWord = ''apple'', grade = HARD, wasRevealed = True \<rparr>,
       revealed = False \<rparr>"

text \<open>
  A notebook at time 1000: three reviewed words whose review is due, two reviewed words
  scheduled for later, and twenty words never reviewed, two of them from an old file
  without a learning object. \<open>exampleSelection\<close> is the session drawn from it with the
  default cap, and \<open>exampleFiles\<close> holds the same words as the category \<open>cet4\<close> with its
  progress file.
\<close>

definition reviewedState :: "nat \<Rightarrow> int \<Rightarrow> int \<Rightarrow> LearningState" where
  "reviewedState lv days next =
     \<lparr> level = Some lv, easeFactor = 5 / 2, interval = days, lastReviewedAt = Some 0,
       nextReviewAt = Some next, reviewCount = 3, correctCount = 3 \<rparr>"

definition entry :: "string \<Rightarrow> LearningState option \<Rightarrow> unit WordEntry" where
  "entry w l = \<lparr> word = w, details = (), learning = l \<rparr>"

definition freshWords :: "string list" where
  "freshWords =
     [''Ant'', ''bee'', ''cat'', ''dog'', ''eel'', ''fox'', ''gnu'', ''hen'', ''ibis'', ''jay'',
      ''kite'', ''lynx'', ''mole'', ''newt'', ''owl'', ''pig'', ''quail'', ''rat'', ''seal'',
      ''toad'']"

definition exampleNotebook :: "unit WordEntry list" where
  "exampleNotebook =
     [entry ''Ant'' None, entry ''bee'' None,
      entry ''urge'' (Some (reviewedState 2 1 900)),
      entry ''vast'' (Some (reviewedState 3 7 5000))]
     @ map (\<lambda>w. entry w (Some DEFAULT_LEARNING)) (drop 2 (take 9 freshWords))
     @ [entry ''wary'' (Some (reviewedState 5 30 1000)),
        entry ''yawn'' (Some (reviewedState 2 6 1001))]
     @ map (\<lambda>w. entry w (Some DEFAULT_LEARNING)) (drop 9 freshWords)
     @ [entry ''zeal'' (Some (reviewedState 4 14 0))]"

definition exampleSelection :: "unit WordEntry list" where
  "exampleSelection =
     [entry ''urge'' (Some (reviewedState 2 1 900)),
      entry ''wary'' (Some (reviewedState 5 30 1000)),
      entry ''zeal'' (Some (reviewedState 4 14 0))]
     @ map (\<lambda>w. entry w (Some DEFAULT_LEARNING)) (take 10 freshWords)"

definition exampleFiles :: "unit CetFiles" where
  "exampleFiles =
     \<lparr> wordListFile =
         [''cet4'' \<mapsto> map (\<lambda>w. entry (word w) None) exampleNotebook],
       progressFile =
         [''cet4'' \<mapsto>
            [''urge'' \<mapsto> reviewedState 2 1 900, ''vast'' \<mapsto> reviewedState 3 7 5000,
             ''wary'' \<mapsto> reviewedState 5 30 1000, ''yawn'' \<mapsto> reviewedState 2 6 1001,
             ''zeal'' \<mapsto> reviewedState 4 14 0, ''ant'' \<mapsto> DEFAULT_LEARNING]] \<rparr>"

text \<open>A small notebook and the same words as the category \<open>cet6\<close>, at time 1000.\<close>

definition smallNotebook :: "unit WordEntry list" where
  "smallNotebook =
     [entry ''Ant'' None,
      entry ''urge'' (Some (reviewedState 2 1 900)),
      entry ''vast'' (Some (reviewedState 3 7 5000)),
      entry ''wary'' (Some (reviewedState 5 30 1000)),
      entry ''bee'' (Some DEFAULT_LEARNING),
      entry ''zeal'' (Some (reviewedState 5 40 2000))]"

definition smallFiles :: "unit CetFiles" where
  "smallFiles =
     \<lparr> wordListFile = [''cet6'' \<mapsto> map (\<lambda>w. entry (word w) None) smallNotebook],
       progressFile =
         [''cet6'' \<mapsto>
            [''urge'' \<mapsto> reviewedState 2 1 900, ''vast'' \<mapsto> reviewedState 3 7 5000,
             ''wary'' \<mapsto> reviewedState 5 30 1000, ''zeal'' \<mapsto> reviewedState 5 40 2000]] \<rparr>"

text \<open>
  A category whose word list holds the word \<open>constructor\<close>, which has no entry in the
  progress file, and the new word \<open>fern\<close>.
\<close>

definition inheritedFiles :: "unit CetFiles" where
  "inheritedFiles =
     \<lparr> wordListFile = [''cet4'' \<mapsto> [entry ''constructor'' None, entry ''fern'' None]],
       progressFile = [''cet4'' \<mapsto> [''fern'' \<mapsto> DEFAULT_LEARNING]] \<rparr>"

text \<open>
  A stored learning object without the field \<open>level\<close>, a progress file that holds it, and
  the same file with the default state in its place; a state of level 7; and a state of
  level 0 that carries a review time.
\<close>

definition malformedState :: LearningState where
  "malformedState =
     \<lparr> level = None, easeFactor = 5 / 2, interval = 6, lastReviewedAt = Some 0,
       nextReviewAt = Some 500, reviewCount = 2, correctCount = 2 \<rparr>"

definition overLevelState :: LearningState where
  "overLevelState = reviewedState 7 30 5000"

definition newWithReviewState :: LearningState where
  "newWithReviewState = reviewedState 0 0 900"

definition malformedFiles :: "unit CetFiles" where
  "malformedFiles =
     \<lparr> wordListFile = [''cet4'' \<mapsto> [entry ''moss'' None]],
       progressFile = [''cet4'' \<mapsto> [''moss'' \<mapsto> malformedState]] \<rparr>"

definition repairedFiles :: "unit CetFiles" where
  "repairedFiles =
     \<lparr> wordListFile = [''cet4'' \<mapsto> [entry ''moss'' None]],
       progressFile = [''cet4'' \<mapsto> [''moss'' \<mapsto> DEFAULT_LEARNING]] \<rparr>"


section \<open>Rounding to a double never falls below a double\<close>

lemma pow2_powi: "pow2 e = 2 powi e"
  by (simp add: pow2_def power_int_def field_simps)

lemma pow2_pos: "0 < pow2 e"
  by (simp add: pow2_def)

lemma pow2_add: "pow2 (a + b) = pow2 a * pow2 b"
  by (simp add: pow2_powi power_int_add)

lemma roundEven_ge: "of_int k \<le> y \<Longrightarrow> k \<le> roundEven y"
proof -
  assume "of_int k \<le> y"
  then have "k \<le> \<lfloor>y\<rfloor>" by (simp add: le_floor_iff)
  moreover have "\<lfloor>y\<rfloor> \<le> roundEven y" by (simp add: roundEven_def Let_def)
  ultimately show ?thesis by linarith
qed

lemma binade_ge1:
  assumes "1 \<le> x"
  shows "0 \<le> binade x" and "pow2 (binade x) \<le> x"
proof -
  have fl: "0 < \<lfloor>x\<rfloor>" using assms by simp
  have b: "binade x = bitlen \<lfloor>x\<rfloor> - 1" using assms by (simp add: binade_def)
  have "bitlen \<lfloor>x\<rfloor> \<noteq> 0" using fl by (simp add: bitlen_eq_zero_iff)
  with bitlen_nonneg[of "\<lfloor>x\<rfloor>"] have pos: "1 \<le> bitlen \<lfloor>x\<rfloor>" by linarith
  then show "0 \<le> binade x" using b by simp
  have "(2::int) ^ nat (bitlen \<lfloor>x\<rfloor> - 1) \<le> \<lfloor>x\<rfloor>" using bitlen_bounds[OF fl] by simp
  then have "of_int ((2::int) ^ nat (bitlen \<lfloor>x\<rfloor> - 1)) \<le> (of_int \<lfloor>x\<rfloor> :: rat)"
    by (simp only: of_int_le_iff)
  also have "\<dots> \<le> x" by simp
  finally show "pow2 (binade x) \<le> x" using pos b by (simp add: pow2_def)
qed

lemma double_grid:
  assumes "of_int k * pow2 (binade x - 52) \<le> x" and "x \<noteq> 0"
  shows "of_int k * pow2 (binade x - 52) \<le> double x"
proof -
  let ?u = "pow2 (binade x - 52)"
  have u: "0 < ?u" by (rule pow2_pos)
  from assms(1) u have "of_int k \<le> x / ?u" by (simp add: pos_le_divide_eq)
  then have "k \<le> roundEven (x / ?u)" by (rule roundEven_ge)
  then have "(of_int k :: rat) \<le> of_int (roundEven (x / ?u))" by simp
  then have "of_int k * ?u \<le> of_int (roundEven (x / ?u)) * ?u"
    using u by (simp add: mult_right_mono)
  then show ?thesis using assms(2) by (simp add: double_def Let_def)
qed

lemma double_lower:
  assumes "1 \<le> x"
  shows "pow2 (binade x) \<le> double x"
proof -
  have "pow2 (binade x) = pow2 (52 + (binade x - 52))" by simp
  also have "\<dots> = of_int (2 ^ 52) * pow2 (binade x - 52)"
    by (simp only: pow2_add) (simp add: pow2_def)
  finally have e: "pow2 (binade x) = of_int (2 ^ 52) * pow2 (binade x - 52)" .
  have "of_int (2 ^ 52) * pow2 (binade x - 52) \<le> double x"
  proof (rule double_grid)
    show "of_int (2 ^ 52) * pow2 (binade x - 52) \<le> x"
      using binade_ge1(2)[OF assms] e by simp
    show "x \<noteq> 0" using assms by auto
  qed
  with e show ?thesis by simp
qed

lemma c13_value: "double (13 / 10) = 5854679515581645 / 4503599627370496"
  by code_simp

lemma c015_value: "double (15 / 100) = 5404319552844595 / 36028797018963968"
  by code_simp

lemma double_ge_c13:
  assumes "double (13 / 10) \<le> x"
  shows "double (13 / 10) \<le> double x"
proof -
  have x1: "1 \<le> x" using assms by (simp add: c13_value)
  show ?thesis
  proof (cases "x < 2")
    case True
    with x1 have "\<lfloor>x\<rfloor> = 1" by (simp add: floor_eq_iff)
    moreover have "bitlen 1 = 1" by code_simp
    ultimately have b: "binade x = 0" using x1 by (simp add: binade_def)
    have "of_int 5854679515581645 * pow2 (binade x - 52) \<le> double x"
    proof (rule double_grid)
      show "of_int 5854679515581645 * pow2 (binade x - 52) \<le> x"
        using assms b by (simp add: c13_value pow2_def)
      show "x \<noteq> 0" using x1 by auto
    qed
    then show ?thesis using b by (simp add: c13_value pow2_def)
  next
    case False
    then have fl2: "2 \<le> \<lfloor>x\<rfloor>" by (simp add: le_floor_iff)
    have "2 \<le> bitlen \<lfloor>x\<rfloor>"
    proof (rule ccontr)
      assume "\<not> 2 \<le> bitlen \<lfloor>x\<rfloor>"
      then have "nat (bitlen \<lfloor>x\<rfloor>) \<le> 1" by simp
      then have "(2::int) ^ nat (bitlen \<lfloor>x\<rfloor>) \<le> 2 ^ 1"
        by (rule power_increasing) simp
      moreover have "\<lfloor>x\<rfloor> < 2 ^ nat (bitlen \<lfloor>x\<rfloor>)"
        using bitlen_bounds[of "\<lfloor>x\<rfloor>"] fl2 by simp
      ultimately show False using fl2 by simp
    qed
    then have e1: "1 \<le> binade x" using x1 by (simp add: binade_def)
    then have "(2::rat) ^ 1 \<le> 2 ^ nat (binade x)"
      by (intro power_increasing) simp_all
    then have "2 \<le> pow2 (binade x)" using e1 by (simp add: pow2_def)
    also have "\<dots> \<le> double x" by (rule double_lower[OF x1])
    finally show ?thesis by (simp add: c13_value)
  qed
qed


section \<open>The scheduler\<close>

lemma getTime_valid: "validTime (getTime d)"
  using getTime[of d] by simp

lemma getTime_newDate: "validTime t \<Longrightarrow> getTime (newDate t) = t"
  by (simp add: newDate_inverse)

lemma calculateLevel_thresholds:
  "calculateLevel i =
     (if i \<ge> 21 then 5 else if i \<ge> 14 then 4 else if i \<ge> 7 then 3
      else if i \<ge> 1 then 2 else if i \<ge> 0 then 1 else 0)"
  by (simp add: calculateLevel_def LEVEL_THRESHOLDS_def)

lemma calculateNextReview_forgot:
  "calculateNextReview now s FORGOT =
     Inr \<lparr> level = Some 1,
           easeFactor = max (double (13 / 10)) (fsub (easeFactor s) (double (2 / 10))),
           interval = 0, lastReviewedAt = Some (getTime now), nextReviewAt = Some (getTime now),
           reviewCount = reviewCount s + 1, correctCount = correctCount s \<rparr>"
  by (simp add: calculateNextReview_def calculateLevel_thresholds getTime_valid Let_def)

lemma calculateNextReview_success:
  "g \<noteq> FORGOT \<Longrightarrow>
   calculateNextReview now s g =
     (let i = (if interval s = 0 then 1 else if interval s = 1 then 6
               else round (fmul (of_int (interval s)) (easeFactor s)))
      in if validTime (getTime now + i * 86400000) then
           Inr \<lparr> level = Some (calculateLevel i),
                 easeFactor =
                   (if g = HARD then
                      max (double (13 / 10)) (fsub (easeFactor s) (double (15 / 100)))
                    else if g = EASY then fadd (easeFactor s) (double (15 / 100))
                    else easeFactor s),
                 interval = i,
                 lastReviewedAt = Some (getTime now),
                 nextReviewAt = Some (getTime now + i * 86400000),
                 reviewCount = reviewCount s + 1, correctCount = correctCount s + 1 \<rparr>
         else Inl RangeError)"
  by (simp add: calculateNextReview_def Let_def mult.commute)

lemma third_good: "round (fmul 6 (double (5 / 2))) = 15"
  by code_simp

lemma grades_distinct:
  "HARD \<noteq> FORGOT" "GOOD \<noteq> FORGOT" "EASY \<noteq> FORGOT" "GOOD \<noteq> HARD" "GOOD \<noteq> EASY" "HARD \<noteq> EASY"
  by (simp_all add: FORGOT_def HARD_def GOOD_def EASY_def)

lemma outcome_simps [simp]:
  "outcome f (Inr s) = Inr (f s)" "outcome f (Inl e) = Inl e"
  by (simp_all add: outcome_def)

text \<open>
  Claim C1, as written, promises the new interval and ease factor for every state and every
  successful grade. The code computes the next review date from the new interval and formats it;
  a date outside the range of JavaScript dates cannot be formatted, and the call throws. A state
  of interval 100000000 reviewed with Good is such an input: the new interval is 250000000 days.
\<close>

theorem C1_counterexample:
  "calculateNextReview (newDate 1700000000000)
     \<lparr> level = Some 5, easeFactor = 5 / 2, interval = 100000000,
       lastReviewedAt = Some 0, nextReviewAt = Some 1000, reviewCount = 20, correctCount = 20 \<rparr>
     GOOD = Inl RangeError"
proof -
  have r: "round (fmul 100000000 (5 / 2)) = 250000000" by code_simp
  have v: "validTime 1700000000000" by (simp add: validTime_def)
  show ?thesis
    by (simp add: calculateNextReview_success grades_distinct Let_def r getTime_newDate[OF v])
       (simp add: validTime_def)
qed

text \<open>
  Claim C1, amended: for a grade of Hard (2), Good (3) or Easy (4), whenever
  \<open>calculateNextReview\<close> returns, the new interval is 1 when the previous interval was 0,
  6 when it was 1, and otherwise \<open>Math.round\<close> of the previous interval times the ease
  factor held before the review; the ease factor is lowered by 0.15 (not below 1.3) for Hard,
  raised by 0.15 for Easy, and unchanged for Good. The call returns exactly when the date of the
  next review, the current time plus the new interval in days, is a valid date. From the
  default state (interval 0, ease factor 2.5) three reviews graded Good, each returning, give
  the intervals 1, 6 and 15.
\<close>

theorem C1_success_interval_and_ease:
  assumes "g = HARD \<or> g = GOOD \<or> g = EASY"
  shows "(\<forall>s'. calculateNextReview now s g = Inr s' \<longrightarrow>
            interval s' =
              (if interval s = 0 then 1 else if interval s = 1 then 6
               else round (fmul (of_int (interval s)) (easeFactor s)))
            \<and> easeFactor s' =
              (if g = HARD then max (double (13 / 10)) (fsub (easeFactor s) (double (15 / 100)))
               else if g = EASY then fadd (easeFactor s) (double (15 / 100))
               else easeFactor s))
       \<and> ((\<exists>s'. calculateNextReview now s g = Inr s') =
            validTime (getTime now +
              (if interval s = 0 then 1 else if interval s = 1 then 6
               else round (fmul (of_int (interval s)) (easeFactor s))) * 86400000))
       \<and> HARD = 2 \<and> GOOD = 3 \<and> EASY = 4
       \<and> interval DEFAULT_LEARNING = 0 \<and> easeFactor DEFAULT_LEARNING = 5 / 2
       \<and> (validTime (getTime t1 + 86400000) \<and> validTime (getTime t2 + 6 * 86400000)
            \<and> validTime (getTime t3 + 15 * 86400000) \<longrightarrow>
            outcome interval (applyReviews DEFAULT_LEARNING [(t1, GOOD)]) = Inr 1
            \<and> outcome interval (applyReviews DEFAULT_LEARNING [(t1, GOOD), (t2, GOOD)]) = Inr 6
            \<and> outcome interval
                 (applyReviews DEFAULT_LEARNING [(t1, GOOD), (t2, GOOD), (t3, GOOD)]) = Inr 15)"
proof -
  have ne: "g \<noteq> FORGOT" using assms grades_distinct by auto
  have d: "double (5 / 2) = 5 / 2" by code_simp
  have a: "\<forall>s'. calculateNextReview now s g = Inr s' \<longrightarrow>
            interval s' =
              (if interval s = 0 then 1 else if interval s = 1 then 6
               else round (fmul (of_int (interval s)) (easeFactor s)))
            \<and> easeFactor s' =
              (if g = HARD then max (double (13 / 10)) (fsub (easeFactor s) (double (15 / 100)))
               else if g = EASY then fadd (easeFactor s) (double (15 / 100))
               else easeFactor s)"
    by (auto simp add: calculateNextReview_success[OF ne] Let_def split: if_splits)
  have b: "(\<exists>s'. calculateNextReview now s g = Inr s') =
            validTime (getTime now +
              (if interval s = 0 then 1 else if interval s = 1 then 6
               else round (fmul (of_int (interval s)) (easeFactor s))) * 86400000)"
    by (simp add: calculateNextReview_success[OF ne] Let_def)
  have gr: "HARD = 2 \<and> GOOD = 3 \<and> EASY = 4" by (simp add: HARD_def GOOD_def EASY_def)
  have c: "interval DEFAULT_LEARNING = 0 \<and> easeFactor DEFAULT_LEARNING = 5 / 2"
    by (simp add: DEFAULT_LEARNING_def d)
  have e: "outcome interval (applyReviews DEFAULT_LEARNING [(t1, GOOD)]) = Inr 1
            \<and> outcome interval (applyReviews DEFAULT_LEARNING [(t1, GOOD), (t2, GOOD)]) = Inr 6
            \<and> outcome interval
                 (applyReviews DEFAULT_LEARNING [(t1, GOOD), (t2, GOOD), (t3, GOOD)]) = Inr 15"
    if "validTime (getTime t1 + 86400000)" "validTime (getTime t2 + 6 * 86400000)"
       "validTime (getTime t3 + 15 * 86400000)"
    using that
    by (simp add: calculateNextReview_success grades_distinct DEFAULT_LEARNING_def Let_def
          third_good)
  from a b gr c e show ?thesis by blast
qed

theorem C1_witness:
  "(HARD = HARD \<or> HARD = GOOD \<or> HARD = EASY)
   \<and> outcome interval (calculateNextReview (newDate 1700000000000)
        \<lparr> level = Some 3, easeFactor = double (235 / 100), interval = 10,
          lastReviewedAt = Some 0, nextReviewAt = Some 900, reviewCount = 4, correctCount = 4 \<rparr>
        HARD) = Inr 24
   \<and> outcome interval
        (applyReviews DEFAULT_LEARNING
           [(newDate 1700000000000, GOOD), (newDate 1700086400000, GOOD),
            (newDate 1700604800000, GOOD)]) = Inr 15"
proof -
  let ?s = "\<lparr> level = Some 3, easeFactor = double (235 / 100), interval = 10,
          lastReviewedAt = Some 0, nextReviewAt = Some 900, reviewCount = 4, correctCount = 4 \<rparr>"
  let ?t1 = "newDate 1700000000000" and ?t2 = "newDate 1700086400000"
  let ?t3 = "newDate 1700604800000"
  have r: "round (fmul (of_int 10) (double (235 / 100))) = 24" by code_simp
  have h: "HARD = HARD \<or> HARD = GOOD \<or> HARD = EASY" by simp
  have g1: "getTime ?t1 = 1700000000000" by (rule getTime_newDate) (simp add: validTime_def)
  have g2: "getTime ?t2 = 1700086400000" by (rule getTime_newDate) (simp add: validTime_def)
  have g3: "getTime ?t3 = 1700604800000" by (rule getTime_newDate) (simp add: validTime_def)
  note t = C1_success_interval_and_ease[OF h, of ?t1 ?s ?t1 ?t2 ?t3]
  from t have ex: "(\<exists>s'. calculateNextReview ?t1 ?s HARD = Inr s') =
            validTime (getTime ?t1 +
              (if interval ?s = 0 then 1 else if interval ?s = 1 then 6
               else round (fmul (of_int (interval ?s)) (easeFactor ?s))) * 86400000)"
    by blast
  have "validTime (getTime ?t1 +
              (if interval ?s = 0 then 1 else if interval ?s = 1 then 6
               else round (fmul (of_int (interval ?s)) (easeFactor ?s))) * 86400000)"
    using r by (simp add: g1 validTime_def)
  with ex obtain s' where s': "calculateNextReview ?t1 ?s HARD = Inr s'" by blast
  from t s' have "interval s' =
              (if interval ?s = 0 then 1 else if interval ?s = 1 then 6
               else round (fmul (of_int (interval ?s)) (easeFactor ?s)))"
    by blast
  then have "interval s' = 24" using r by simp
  with s' have i: "outcome interval (calculateNextReview ?t1 ?s HARD) = Inr 24" by simp
  have v: "validTime (getTime ?t1 + 86400000) \<and> validTime (getTime ?t2 + 6 * 86400000)
            \<and> validTime (getTime ?t3 + 15 * 86400000)"
    by (simp add: g1 g2 g3 validTime_def)
  from t v have e: "outcome interval
        (applyReviews DEFAULT_LEARNING [(?t1, GOOD), (?t2, GOOD), (?t3, GOOD)]) = Inr 15"
    by blast
  from h i e show ?thesis by blast
qed




text \<open>
  Claim C3. The level of every state that \<open>calculateNextReview\<close> returns is a function
  of the new interval alone, \<open>calculateLevel\<close> of it, and \<open>calculateLevel\<close> is the ordered
  threshold rule, highest first: at least 21 gives 5, at least 14 gives 4, at least 7 gives
  3, at least 1 gives 2, at least 0 gives 1, anything else 0. A Forgot grade always returns
  a state; its interval is exactly 0 and its level is 1, not 0.
\<close>

theorem C3_level_from_interval:
  "(\<forall>s'. calculateNextReview now s g = Inr s' \<longrightarrow>
      level s' = Some (calculateLevel (interval s')))
   \<and> calculateLevel i =
       (if i \<ge> 21 then 5 else if i \<ge> 14 then 4 else if i \<ge> 7 then 3
        else if i \<ge> 1 then 2 else if i \<ge> 0 then 1 else 0)
   \<and> (\<exists>s'. calculateNextReview now s FORGOT = Inr s' \<and> interval s' = 0 \<and> level s' = Some 1)"
proof -
  have "\<forall>s'. calculateNextReview now s g = Inr s' \<longrightarrow>
          level s' = Some (calculateLevel (interval s'))"
    by (cases "g = FORGOT")
       (auto simp add: calculateNextReview_forgot calculateNextReview_success
          calculateLevel_thresholds Let_def split: if_splits)
  then show ?thesis
    using calculateLevel_thresholds[of i] by (simp add: calculateNextReview_forgot)
qed

theorem C3_witness:
  "outcome level (calculateNextReview (newDate 1700000000000) DEFAULT_LEARNING FORGOT)
     = Inr (Some 1)
   \<and> outcome level (calculateNextReview (newDate 1700000000000) DEFAULT_LEARNING GOOD)
     = Inr (Some 2)
   \<and> map calculateLevel [-1, 0, 1, 6, 7, 13, 14, 20, 21, 400] = [0, 1, 2, 2, 3, 3, 4, 4, 5, 5]"
proof -
  let ?t = "newDate 1700000000000"
  have g: "getTime ?t = 1700000000000" by (rule getTime_newDate) (simp add: validTime_def)
  obtain s1 where s1: "calculateNextReview ?t DEFAULT_LEARNING GOOD = Inr s1"
    and i: "interval s1 = 1"
    by (simp add: calculateNextReview_success grades_distinct DEFAULT_LEARNING_def Let_def g
          validTime_def)
  from C3_level_from_interval[of ?t DEFAULT_LEARNING GOOD 1] s1
  have "level s1 = Some (calculateLevel (interval s1))" by blast
  then have a: "outcome level (calculateNextReview ?t DEFAULT_LEARNING GOOD) = Inr (Some 2)"
    by (simp add: s1 i calculateLevel_thresholds)
  from C3_level_from_interval[of ?t DEFAULT_LEARNING FORGOT 0]
  obtain s0 where "calculateNextReview ?t DEFAULT_LEARNING FORGOT = Inr s0" "level s0 = Some 1"
    by blast
  then have b: "outcome level (calculateNextReview ?t DEFAULT_LEARNING FORGOT) = Inr (Some 1)"
    by simp
  have c: "map calculateLevel [-1, 0, 1, 6, 7, 13, 14, 20, 21, 400]
             = [0, 1, 2, 2, 3, 3, 4, 4, 5, 5]"
    by (simp add: calculateLevel_thresholds)
  from a b c show ?thesis by blast
qed

lemma correctCount_applyReviews:
  "applyReviews s rs = Inr s' \<Longrightarrow>
   correctCount s' = correctCount s + length (filter (\<lambda>(now, g). g \<noteq> FORGOT) rs)"
proof (induction rs arbitrary: s)
  case Nil
  then show ?case by simp
next
  case (Cons r rs)
  obtain now g where r: "r = (now, g)" by (cases r)
  from Cons.prems obtain s1 where s1: "calculateNextReview now s g = Inr s1"
    and rest: "applyReviews s1 rs = Inr s'"
    by (auto simp add: r split: sum.splits)
  have "correctCount s1 = correctCount s + (if g = FORGOT then 0 else 1)"
    using s1
    by (cases "g = FORGOT")
       (auto simp add: calculateNextReview_forgot calculateNextReview_success Let_def
          split: if_splits)
  with Cons.IH[OF rest] show ?case by (simp add: r)
qed

lemma replicate_numeral_step:
  "replicate (numeral k) x = x # replicate (pred_numeral k) x"
  by (simp add: numeral_eq_Suc)

lemma good_chain:
  "map (\<lambda>i. round (fmul i (double (5 / 2))))
     [6, 15, 38, 95, 238, 595, 1488, 3720, 9300, 23250, 58125, 145313, 363283, 908208,
      2270520, 5676300, 14190750, 35476875, 88692188]
   = [15, 38, 95, 238, 595, 1488, 3720, 9300, 23250, 58125, 145313, 363283, 908208,
      2270520, 5676300, 14190750, 35476875, 88692188, 221730470]"
  by code_simp

text \<open>
  Claim C4 says that after any sequence of grades from the default state, the correct
  count is the number of grades that are Good or Easy. The scheduler increments the count
  in its branch for every grade other than Forgot ("Successful recall"), so Hard counts
  too: one Hard review gives a correct count of 1, and no grade of that history is at
  least Good. And not every sequence of grades leaves a state to read a count from: of
  twenty-one reviews graded Good the last one throws, the interval of 221730470 days
  leading past the last JavaScript date.
\<close>

theorem C4_counterexample:
  "outcome correctCount (applyReviews DEFAULT_LEARNING [(newDate 1700000000000, HARD)]) = Inr 1
   \<and> length (filter (\<lambda>(now, g). g \<ge> GOOD) [(newDate 1700000000000, HARD)]) = 0
   \<and> outcome interval (applyReviews DEFAULT_LEARNING (replicate 20 (newDate 1700000000000, GOOD)))
       = Inr 88692188
   \<and> applyReviews DEFAULT_LEARNING (replicate 21 (newDate 1700000000000, GOOD))
       = Inl RangeError"
proof -
  let ?t = "newDate 1700000000000"
  have g: "getTime ?t = 1700000000000" by (rule getTime_newDate) (simp add: validTime_def)
  note r = good_chain[simplified]
  have a: "outcome correctCount (applyReviews DEFAULT_LEARNING [(?t, HARD)]) = Inr 1"
    by (simp add: calculateNextReview_success grades_distinct DEFAULT_LEARNING_def Let_def g
          validTime_def)
  have b: "length (filter (\<lambda>(now, g). g \<ge> GOOD) [(?t, HARD)]) = 0"
    by (simp add: HARD_def GOOD_def)
  have c: "outcome interval (applyReviews DEFAULT_LEARNING (replicate 20 (?t, GOOD)))
       = Inr 88692188"
    by (simp add: replicate_numeral_step calculateNextReview_success grades_distinct
          DEFAULT_LEARNING_def Let_def g validTime_def r)
  have d: "applyReviews DEFAULT_LEARNING (replicate 21 (?t, GOOD)) = Inl RangeError"
    by (simp add: replicate_numeral_step calculateNextReview_success grades_distinct
          DEFAULT_LEARNING_def Let_def g validTime_def r)
  from a b c d show ?thesis by blast
qed

text \<open>
  Claim C4, amended. Starting from the default learning state, after any finite sequence
  of reviews on which no call throws, the correct count is the number of grades in the
  sequence other than Forgot (that is, Hard, Good or Easy among the four grades).
\<close>

theorem C4_correctCount_counts_not_forgot:
  "applyReviews DEFAULT_LEARNING rs = Inr s' \<longrightarrow>
   correctCount s' = length (filter (\<lambda>(now, g). g \<noteq> FORGOT) rs)"
  using correctCount_applyReviews[of DEFAULT_LEARNING rs s']
  by (simp add: DEFAULT_LEARNING_def)

theorem C4_witness:
  "outcome correctCount (applyReviews DEFAULT_LEARNING
      [(newDate 1700000000000, GOOD), (newDate 1700086400000, FORGOT),
       (newDate 1700086500000, HARD), (newDate 1700172900000, EASY),
       (newDate 1700691300000, FORGOT)]) = Inr 3"
proof -
  let ?rs = "[(newDate 1700000000000, GOOD), (newDate 1700086400000, FORGOT),
       (newDate 1700086500000, HARD), (newDate 1700172900000, EASY),
       (newDate 1700691300000, FORGOT)]"
  have g: "getTime (newDate 1700000000000) = 1700000000000"
    "getTime (newDate 1700086500000) = 1700086500000"
    "getTime (newDate 1700172900000) = 1700172900000"
    by (rule getTime_newDate, simp add: validTime_def)+
  obtain s' where s': "applyReviews DEFAULT_LEARNING ?rs = Inr s'"
    by (simp add: calculateNextReview_success calculateNextReview_forgot grades_distinct
          DEFAULT_LEARNING_def Let_def g validTime_def)
  from C4_correctCount_counts_not_forgot[of ?rs s'] s'
  have "correctCount s' = length (filter (\<lambda>(now, g). g \<noteq> FORGOT) ?rs)" by blast
  then have "correctCount s' = 3" by (simp add: grades_distinct)
  with s' show ?thesis by simp
qed

lemma c13_above: "13 / 10 \<le> double (13 / 10)"
  by (simp add: c13_value)

lemma easeFactor_step:
  "calculateNextReview now s g = Inr s' \<Longrightarrow>
   easeFactor s' = easeFactor s
   \<or> double (13 / 10) \<le> easeFactor s'
   \<or> (g = EASY \<and> easeFactor s' = fadd (easeFactor s) (double (15 / 100)))"
  by (cases "g = FORGOT")
     (auto simp add: calculateNextReview_forgot calculateNextReview_success Let_def
        split: if_splits)

lemma fadd_c015_ge:
  assumes "13 / 10 \<le> x"
  shows "double (13 / 10) \<le> fadd x (double (15 / 100))"
proof -
  have "double (13 / 10) \<le> x + double (15 / 100)"
    unfolding c13_value c015_value using assms by simp
  then show ?thesis unfolding fadd_def by (rule double_ge_c13)
qed

lemma easeFactor_floor_step:
  assumes "13 / 10 \<le> easeFactor s" and "calculateNextReview now s g = Inr s'"
  shows "13 / 10 \<le> easeFactor s'"
  using easeFactor_step[OF assms(2)] fadd_c015_ge[OF assms(1)] c13_above assms(1) by auto

lemma easeFactor_floor_step_double:
  assumes "double (13 / 10) \<le> easeFactor s" and "calculateNextReview now s g = Inr s'"
  shows "double (13 / 10) \<le> easeFactor s'"
proof -
  have "13 / 10 \<le> easeFactor s" using assms(1) c13_above by linarith
  from fadd_c015_ge[OF this] easeFactor_step[OF assms(2)] assms(1) show ?thesis by auto
qed

lemma easeFactor_floor_applyReviews:
  "13 / 10 \<le> easeFactor s \<Longrightarrow> applyReviews s rs = Inr s' \<Longrightarrow> 13 / 10 \<le> easeFactor s'"
proof (induction s rs rule: applyReviews.induct)
  case (1 s)
  then show ?case by simp
next
  case (2 s now g rest)
  from "2.prems"(2) obtain s1 where s1: "calculateNextReview now s g = Inr s1"
    and rest: "applyReviews s1 rest = Inr s'"
    by (auto split: sum.splits)
  from "2.IH"[OF s1 easeFactor_floor_step[OF "2.prems"(1) s1] rest] show ?case .
qed

lemma easeFactor_floor_applyReviews_double:
  "double (13 / 10) \<le> easeFactor s \<Longrightarrow> applyReviews s rs = Inr s' \<Longrightarrow>
   double (13 / 10) \<le> easeFactor s'"
proof (induction s rs rule: applyReviews.induct)
  case (1 s)
  then show ?case by simp
next
  case (2 s now g rest)
  from "2.prems"(2) obtain s1 where s1: "calculateNextReview now s g = Inr s1"
    and rest: "applyReviews s1 rest = Inr s'"
    by (auto split: sum.splits)
  from "2.IH"[OF s1 easeFactor_floor_step_double[OF "2.prems"(1) s1] rest] show ?case .
qed

text \<open>
  Claim C9. If the ease factor of the initial state is at least 1.3, then after every
  prefix of every finite sequence of reviews (every intermediate state and the final one)
  the ease factor is at least 1.3. Stated for the exact bound 13/10 and for the double
  that the literal \<open>1.3\<close> denotes, of every state that the reviews return.
\<close>

theorem C9_easeFactor_floor:
  "(13 / 10 \<le> easeFactor s \<longrightarrow>
      (\<forall>n s'. applyReviews s (take n rs) = Inr s' \<longrightarrow> 13 / 10 \<le> easeFactor s'))
   \<and> (double (13 / 10) \<le> easeFactor s \<longrightarrow>
        (\<forall>n s'. applyReviews s (take n rs) = Inr s' \<longrightarrow> double (13 / 10) \<le> easeFactor s'))"
  using easeFactor_floor_applyReviews[of s] easeFactor_floor_applyReviews_double[of s]
  by blast


lemma ease_chain:
  "max (5854679515581645 / 4503599627370496) (fsub (double (5 / 2)) (double (1 / 5))) = 2589569785738035 / 1125899906842624"
  "max (5854679515581645 / 4503599627370496) (fsub (2589569785738035 / 1125899906842624) (double (1 / 5))) = 1182194902184755 / 562949953421312"
  "max (5854679515581645 / 4503599627370496) (fsub (1182194902184755 / 562949953421312) (double (3 / 20))) = 4391009636686233 / 2251799813685248"
  "max (5854679515581645 / 4503599627370496) (fsub (4391009636686233 / 2251799813685248) (double (1 / 5))) = 7881299347898367 / 4503599627370496"
  "max (5854679515581645 / 4503599627370496) (fsub (7881299347898367 / 4503599627370496) (double (1 / 5))) = 1745144855606067 / 1125899906842624"
  "max (5854679515581645 / 4503599627370496) (fsub (1745144855606067 / 1125899906842624) (double (1 / 5))) = 6079859496950169 / 4503599627370496"
  "max (5854679515581645 / 4503599627370496) (fsub (6079859496950169 / 4503599627370496) (double (1 / 5))) = 5854679515581645 / 4503599627370496"
  by code_simp+

theorem C9_witness:
  "13 / 10 \<le> easeFactor DEFAULT_LEARNING
   \<and> double (13 / 10) \<le> easeFactor DEFAULT_LEARNING
   \<and> outcome easeFactor (applyReviews DEFAULT_LEARNING
          [(newDate 1700000000000, FORGOT), (newDate 1700000100000, FORGOT),
           (newDate 1700000200000, HARD), (newDate 1700086600000, FORGOT),
           (newDate 1700086700000, FORGOT), (newDate 1700086800000, FORGOT),
           (newDate 1700086900000, FORGOT)])
       = Inr (double (13 / 10))
   \<and> (\<exists>s'. applyReviews DEFAULT_LEARNING
          (take 9 [(newDate 1700000000000, FORGOT), (newDate 1700000100000, FORGOT),
           (newDate 1700000200000, HARD), (newDate 1700086600000, FORGOT),
           (newDate 1700086700000, FORGOT), (newDate 1700086800000, FORGOT),
           (newDate 1700086900000, FORGOT), (newDate 1700087000000, HARD),
           (newDate 1700173400000, EASY), (newDate 1700691800000, GOOD)]) = Inr s'
        \<and> 13 / 10 \<le> easeFactor s' \<and> double (13 / 10) \<le> easeFactor s')"
proof -
  let ?rs = "[(newDate 1700000000000, FORGOT), (newDate 1700000100000, FORGOT),
           (newDate 1700000200000, HARD), (newDate 1700086600000, FORGOT),
           (newDate 1700086700000, FORGOT), (newDate 1700086800000, FORGOT),
           (newDate 1700086900000, FORGOT), (newDate 1700087000000, HARD),
           (newDate 1700173400000, EASY), (newDate 1700691800000, GOOD)]"
  have d: "double (5 / 2) = 5 / 2" by code_simp
  have h1: "13 / 10 \<le> easeFactor DEFAULT_LEARNING" by (simp add: DEFAULT_LEARNING_def d)
  have h2: "double (13 / 10) \<le> easeFactor DEFAULT_LEARNING"
    by (simp add: DEFAULT_LEARNING_def d c13_value)
  have g: "getTime (newDate 1700000200000) = 1700000200000"
    "getTime (newDate 1700087000000) = 1700087000000"
    "getTime (newDate 1700173400000) = 1700173400000"
    by (rule getTime_newDate, simp add: validTime_def)+
  have e: "outcome easeFactor (applyReviews DEFAULT_LEARNING (take 7 ?rs))
       = Inr (double (13 / 10))"
    by (simp add: calculateNextReview_success calculateNextReview_forgot grades_distinct
          DEFAULT_LEARNING_def Let_def g validTime_def c13_value ease_chain)
  obtain s' where s': "applyReviews DEFAULT_LEARNING (take 9 ?rs) = Inr s'"
    by (simp add: calculateNextReview_success calculateNextReview_forgot grades_distinct
          DEFAULT_LEARNING_def Let_def g validTime_def c13_value ease_chain)
  from C9_easeFactor_floor[of DEFAULT_LEARNING ?rs] h1 h2 s'
  have "13 / 10 \<le> easeFactor s'" "double (13 / 10) \<le> easeFactor s'" by blast+
  with s' have x: "\<exists>s'. applyReviews DEFAULT_LEARNING (take 9 ?rs) = Inr s'
        \<and> 13 / 10 \<le> easeFactor s' \<and> double (13 / 10) \<le> easeFactor s'"
    by blast
  have t8: "take 7 ?rs = [(newDate 1700000000000, FORGOT), (newDate 1700000100000, FORGOT),
           (newDate 1700000200000, HARD), (newDate 1700086600000, FORGOT),
           (newDate 1700086700000, FORGOT), (newDate 1700086800000, FORGOT),
           (newDate 1700086900000, FORGOT)]"
    by simp
  from h1 h2 e[unfolded t8] x show ?thesis by blast
qed


section \<open>The session\<close>

text \<open>
  Claim C8 gives the percentage as \<open>round(correct/reviewed \<times> 100)\<close>. The code evaluates
  the quotient and the product in doubles, and each operation rounds: for 23 correct of 40
  the quotient 0.575 is no double, the product is the double just below 57.5, and the
  result is 57, where the rounded exact value is 58.
\<close>

theorem C8_counterexample:
  "getStats fortyCards = \<lparr> reviewed = 40, correct = 23, needPractice = 17, percentage = 57 \<rparr>
   \<and> round (rat_of_nat (correct (getStats fortyCards))
              / rat_of_nat (reviewed (getStats fortyCards)) * 100) = 58"
proof -
  have p: "round (fmul (fdiv 23 40) 100) = 57" by code_simp
  have a: "getStats fortyCards =
             \<lparr> reviewed = 40, correct = 23, needPractice = 17, percentage = 57 \<rparr>"
    by (simp add: getStats_def fortyCards_def Let_def p GOOD_def HARD_def)
  have b: "round ((23 :: rat) / 40 * 100) = 58" by (simp add: round_def)
  from a b show ?thesis by simp
qed

text \<open>
  Claim C8, amended. For every learning session, \<open>getStats\<close> returns \<open>reviewed\<close> = the
  length of \<open>results\<close>, \<open>correct\<close> = the number of recorded grades that are at least
  Good, \<open>needPractice\<close> = the number below Good, and \<open>percentage\<close> =
  \<open>Math.round((correct / reviewed) * 100)\<close> evaluated in double arithmetic, the quotient
  and the product each rounded to the nearest double, or 0 when nothing was reviewed. For
  the recorded grades Good, Easy, Forgot it returns 3, 2, 1 and 67.
\<close>

theorem C8_getStats:
  "getStats session =
     \<lparr> reviewed = length (results session),
       correct = length (filter (\<lambda>r. grade r \<ge> GOOD) (results session)),
       needPractice = length (filter (\<lambda>r. grade r < GOOD) (results session)),
       percentage =
         (if length (results session) = 0 then 0
          else round (fmul (fdiv (of_nat (length (filter (\<lambda>r. grade r \<ge> GOOD) (results session))))
                                 (of_nat (length (results session)))) 100)) \<rparr>
   \<and> (map grade (results session) = [GOOD, EASY, FORGOT] \<longrightarrow>
        getStats session = \<lparr> reviewed = 3, correct = 2, needPractice = 1, percentage = 67 \<rparr>)"
proof -
  have p: "round (fmul (fdiv 2 3) 100) = 67" by code_simp
  have a: "getStats session =
     \<lparr> reviewed = length (results session),
       correct = length (filter (\<lambda>r. grade r \<ge> GOOD) (results session)),
       needPractice = length (filter (\<lambda>r. grade r < GOOD) (results session)),
       percentage =
         (if length (results session) = 0 then 0
          else round (fmul (fdiv (of_nat (length (filter (\<lambda>r. grade r \<ge> GOOD) (results session))))
                                 (of_nat (length (results session)))) 100)) \<rparr>"
    by (simp add: getStats_def Let_def)
  have b: "getStats session = \<lparr> reviewed = 3, correct = 2, needPractice = 1, percentage = 67 \<rparr>"
    if "map grade (results session) = [GOOD, EASY, FORGOT]"
  proof -
    from that obtain r1 r2 r3 where rs: "results session = [r1, r2, r3]"
      and g: "grade r1 = GOOD" "grade r2 = EASY" "grade r3 = FORGOT"
      by (auto simp add: map_eq_Cons_conv)
    show ?thesis
      by (simp add: a rs g p) (simp add: GOOD_def EASY_def FORGOT_def p)
  qed
  from a b show ?thesis by blast
qed

lemma example_session:
  "recordGrades (newLearningSession exampleWords) [GOOD, EASY, FORGOT] = Inr exampleSessionDone"
  by (simp add: newLearningSession_def exampleWords_def recordGrade_def currentWord_def
        reveal_def exampleSessionDone_def)

theorem C8_witness:
  "recordGrades (newLearningSession exampleWords) [GOOD, EASY, FORGOT] = Inr exampleSessionDone
   \<and> map grade (results exampleSessionDone) = [GOOD, EASY, FORGOT]
   \<and> getStats exampleSessionDone =
        \<lparr> reviewed = 3, correct = 2, needPractice = 1, percentage = 67 \<rparr>"
proof -
  have g: "map grade (results exampleSessionDone) = [GOOD, EASY, FORGOT]"
    by (simp add: exampleSessionDone_def)
  from C8_getStats[of exampleSessionDone] g
  have "getStats exampleSessionDone =
          \<lparr> reviewed = 3, correct = 2, needPractice = 1, percentage = 67 \<rparr>"
    by blast
  with example_session g show ?thesis by simp
qed

text \<open>
  Claim C10. In a complete session (\<open>currentIndex \<ge> words.length\<close>) the current word
  is \<open>null\<close> and \<open>recordGrade\<close> fails with a TypeError, recording nothing; in a
  session that is not complete it records the grade of the current word, advances the
  cursor and hides the answer. The REPL establishes the precondition: it puts a card
  front on screen only when the session is not complete.
\<close>

theorem C10_recordGrade_needs_current_word:
  "(isComplete session \<longrightarrow>
      currentWord session = None \<and> recordGrade session g = Inl TypeError)
   \<and> (\<not> isComplete session \<longrightarrow>
      currentWord session = Some (words session ! currentIndex session)
      \<and> recordGrade session g =
          Inr (session\<lparr> results := results session @
                           [\<lparr> resultWord = word (words session ! currentIndex session),
                              grade = g, wasRevealed = revealed session \<rparr>],
                        currentIndex := currentIndex session + 1,
                        revealed := False \<rparr>))
   \<and> (showCurrentFlashcard session = FLASHCARD_FRONT \<longrightarrow> \<not> isComplete session)
   \<and> (showCETCurrentFlashcard session = CET_FLASHCARD_FRONT \<longrightarrow> \<not> isComplete session)"
  by (simp add: isComplete_def currentWord_def recordGrade_def showCurrentFlashcard_def
        showCETCurrentFlashcard_def)

theorem C10_witness:
  "isComplete (newLearningSession ([] :: unit WordEntry list))
   \<and> recordGrade (newLearningSession ([] :: unit WordEntry list)) GOOD = Inl TypeError
   \<and> \<not> isComplete (newLearningSession exampleWords)
   \<and> showCurrentFlashcard (newLearningSession exampleWords) = FLASHCARD_FRONT
   \<and> recordGrade (newLearningSession exampleWords) GOOD =
        Inr \<lparr> words = exampleWords, currentIndex = 1,
              results = [\<lparr> resultWord = ''apple'', grade = GOOD, wasRevealed = False \<rparr>],
              revealed = False \<rparr>
   \<and> recordGrades (newLearningSession exampleWords) [GOOD, EASY, FORGOT] = Inr exampleSessionDone
   \<and> isComplete exampleSessionDone
   \<and> showCurrentFlashcard exampleSessionDone = SESSION_COMPLETE
   \<and> recordGrade exampleSessionDone HARD = Inl TypeError"
proof -
  have c0: "isComplete (newLearningSession ([] :: unit WordEntry list))"
    by (simp add: isComplete_def newLearningSession_def)
  have c1: "\<not> isComplete (newLearningSession exampleWords)"
    by (simp add: isComplete_def newLearningSession_def exampleWords_def)
  have c3: "isComplete exampleSessionDone"
    by (simp add: isComplete_def exampleWords_def exampleSessionDone_def)
  have f: "showCurrentFlashcard (newLearningSession exampleWords) = FLASHCARD_FRONT"
    using c1 by (simp add: showCurrentFlashcard_def)
  have f3: "showCurrentFlashcard exampleSessionDone = SESSION_COMPLETE"
    using c3 by (simp add: showCurrentFlashcard_def)
  from C10_recordGrade_needs_current_word
         [of "newLearningSession ([] :: unit WordEntry list)" GOOD] c0
  have a: "recordGrade (newLearningSession ([] :: unit WordEntry list)) GOOD = Inl TypeError"
    by blast
  from C10_recordGrade_needs_current_word[of "newLearningSession exampleWords" GOOD] c1
  have b: "recordGrade (newLearningSession exampleWords) GOOD =
        Inr \<lparr> words = exampleWords, currentIndex = 1,
              results = [\<lparr> resultWord = ''apple'', grade = GOOD, wasRevealed = False \<rparr>],
              revealed = False \<rparr>"
    by (simp add: newLearningSession_def exampleWords_def)
  from C10_recordGrade_needs_current_word[of exampleSessionDone HARD] c3
  have c: "recordGrade exampleSessionDone HARD = Inl TypeError" by blast
  from c0 a c1 f b example_session c3 f3 c show ?thesis by simp
qed



section \<open>Selection of the words of a session\<close>

lemma learning_ensure:
  "learning (ensureLearningFields w) = Some (learningOf w)"
  by (simp add: ensureLearningFields_def learningOf_def split: option.split)

lemma learningOf_ensure [simp]:
  "learningOf (ensureLearningFields w) = learningOf w"
  by (simp add: learningOf_def learning_ensure)

lemma learningOf_withLearning [simp]:
  "learningOf (withLearning toLowerCase p w) = wordState toLowerCase p w"
  by (simp add: learningOf_def withLearning_def)

text \<open>The test the loops make for a due word: not level 0, and the review is due.\<close>

lemma Notebook_selectLoop_eq:
  "Notebook_selectLoop now ws seen dueWords newWords =
     Inr (seen @ map ensureLearningFields ws,
          dueWords @ filter (\<lambda>w. level (learningOf w) \<noteq> Some 0 \<and> reviewDue now (learningOf w))
                       (map ensureLearningFields ws),
          newWords @ filter (\<lambda>w. newWord (learningOf w)) (map ensureLearningFields ws))"
proof (induction ws arbitrary: seen dueWords newWords)
  case Nil
  then show ?case by simp
next
  case (Cons w ws)
  show ?case
    by (simp add: Let_def learning_ensure Cons.IH newWord_def reviewDue_def
          split: option.split)
qed

text \<open>
  The category store's loop passes over the words for which the lookup finds a member of
  \<open>Object.prototype\<close>.
\<close>

lemma selectLoop_eq:
  "selectLoop toLowerCase now p ws dueWords newWords =
     (dueWords @ filter (\<lambda>w. level (learningOf w) \<noteq> Some 0 \<and> reviewDue now (learningOf w))
                   (map (withLearning toLowerCase p) (filter (plainKey toLowerCase p) ws)),
      newWords @ filter (\<lambda>w. newWord (learningOf w))
                   (map (withLearning toLowerCase p) (filter (plainKey toLowerCase p) ws)))"
proof (induction ws arbitrary: dueWords newWords)
  case Nil
  then show ?case by simp
next
  case (Cons w ws)
  show ?case
  proof (cases "progressLearning p (toLowerCase (word w))")
    case PrototypeMember
    then show ?thesis
      by (simp add: Let_def Cons.IH plainKey_def wordValue_def)
  next
    case (Learning l)
    then show ?thesis
      by (simp add: Let_def Cons.IH plainKey_def wordValue_def wordState_def newWord_def
            reviewDue_def withLearning_def learningOf_def split: option.split)
  qed
qed

lemma slice0_nonneg: "0 \<le> n \<Longrightarrow> slice0 xs n = take (nat n) xs"
  by (simp add: slice0_def)

lemmas example_defs =
  exampleNotebook_def exampleSelection_def exampleFiles_def freshWords_def entry_def
  reviewedState_def learningOf_def newWord_def reviewDue_def dueWord_def hasLevel_def
  DEFAULT_LEARNING_def progressLearning_def progressOf_def withLearning_def asciiLower_def
  ensureLearningFields_def wordState_def wordValue_def plainKey_def OBJECT_PROTOTYPE_KEYS_def

lemmas small_defs =
  smallNotebook_def smallFiles_def entry_def reviewedState_def learningOf_def newWord_def
  reviewDue_def dueWord_def hasLevel_def DEFAULT_LEARNING_def progressLearning_def progressOf_def
  withLearning_def asciiLower_def ensureLearningFields_def wordState_def wordValue_def
  plainKey_def OBJECT_PROTOTYPE_KEYS_def

lemmas malformed_defs =
  malformedState_def malformedFiles_def repairedFiles_def inheritedFiles_def entry_def
  learningOf_def newWord_def reviewDue_def dueWord_def hasLevel_def DEFAULT_LEARNING_def
  progressLearning_def progressOf_def withLearning_def asciiLower_def ensureLearningFields_def
  wordState_def wordValue_def plainKey_def OBJECT_PROTOTYPE_KEYS_def

lemmas query_defs =
  getWordsForLearning_def getLearningStats_def getWordList_def getProgress_def CATEGORIES_def
  Notebook_getWordsForLearning_def Notebook_getLearningStats_def getWordLearningState_def
  slice0_def Let_def



lemma exampleNotebook_levels:
  "\<forall>w \<in> set exampleNotebook. level (learningOf w) \<noteq> None"
  by (simp add: exampleNotebook_def entry_def freshWords_def learningOf_def reviewedState_def
        DEFAULT_LEARNING_def)



section \<open>Statistics\<close>

lemma bumpLevel_counts:
  "k < length cs \<Longrightarrow> bumpLevel (map Count cs) (Some k) = map Count (cs[k := cs ! k + 1])"
  by (simp add: bumpLevel_def map_update)

lemma foldl_bumpLevel_histogram:
  "\<forall>w \<in> set ws. \<forall>k. f w = Some k \<longrightarrow> k < length cs \<Longrightarrow>
   foldl bumpLevel (map Count cs) (map f ws) =
     map (\<lambda>k. Count (cs ! k + length (filter (\<lambda>w. f w = Some k) ws))) [0..<length cs]"
proof (induction ws arbitrary: cs)
  case Nil
  have "map (\<lambda>k. Count (cs ! k)) [0..<length cs] = map Count (map (\<lambda>k. cs ! k) [0..<length cs])"
    by simp
  then show ?case by (simp only: map_nth) simp
next
  case (Cons w ws)
  show ?case
  proof (cases "f w")
    case None
    have rest: "\<forall>w \<in> set ws. \<forall>k. f w = Some k \<longrightarrow> k < length cs" using Cons.prems by simp
    have "foldl bumpLevel (map Count cs) (map f (w # ws)) =
            foldl bumpLevel (map Count cs) (map f ws)"
      by (simp add: None bumpLevel_def)
    also have "\<dots> = map (\<lambda>k. Count (cs ! k + length (filter (\<lambda>w. f w = Some k) ws)))
                        [0..<length cs]"
      by (rule Cons.IH[OF rest])
    also have "\<dots> = map (\<lambda>k. Count (cs ! k + length (filter (\<lambda>w. f w = Some k) (w # ws))))
                        [0..<length cs]"
      by (simp add: None)
    finally show ?thesis .
  next
    case (Some k0)
    with Cons.prems have k0: "k0 < length cs" "f w = Some k0" by auto
    let ?cs = "cs[k0 := cs ! k0 + 1]"
    have len: "length ?cs = length cs" by simp
    have rest: "\<forall>w \<in> set ws. \<forall>k. f w = Some k \<longrightarrow> k < length ?cs" using Cons.prems by simp
    have "foldl bumpLevel (map Count cs) (map f (w # ws)) =
            foldl bumpLevel (map Count ?cs) (map f ws)"
      by (simp add: k0 bumpLevel_counts)
    also have "\<dots> = map (\<lambda>k. Count (?cs ! k + length (filter (\<lambda>w. f w = Some k) ws)))
                        [0..<length cs]"
      using Cons.IH[OF rest] by (simp only: len)
    also have "\<dots> = map (\<lambda>k. Count (cs ! k + length (filter (\<lambda>w. f w = Some k) (w # ws))))
                        [0..<length cs]"
      by (rule map_cong) (auto simp add: k0 nth_list_update)
    finally show ?thesis .
  qed
qed

lemma level_histogram:
  assumes "\<forall>w \<in> set xs. levelInRange (g w)"
  shows "foldl bumpLevel (map Count (replicate 6 0)) (map (\<lambda>w. level (g w)) xs) =
           map (\<lambda>k. Count (length (filter (\<lambda>w. hasLevel k (g w)) xs))) [0..<6]"
proof -
  let ?zero = "replicate 6 (0 :: nat)"
  have "\<forall>w \<in> set xs. \<forall>k. level (g w) = Some k \<longrightarrow> k < length ?zero"
    using assms by (auto simp add: levelInRange_def split: option.splits)
  from foldl_bumpLevel_histogram[OF this]
  have "foldl bumpLevel (map Count ?zero) (map (\<lambda>w. level (g w)) xs) =
          map (\<lambda>k. Count (?zero ! k + length (filter (\<lambda>w. level (g w) = Some k) xs))) [0..<6]"
    by (simp only: length_replicate)
  also have "\<dots> = map (\<lambda>k. Count (length (filter (\<lambda>w. hasLevel k (g w)) xs))) [0..<6]"
    by (rule map_cong) (simp_all add: hasLevel_def)
  finally show ?thesis .
qed

lemma increment_funpow: "(increment ^^ n) (Count m) = Count (m + n)"
  by (induction n arbitrary: m) (simp_all add: funpow_swap1)

lemma statsLoop_eq:
  "statsLoop toLowerCase now p ws st =
     st\<lparr> byLevel := foldl bumpLevel (byLevel st)
                      (map (\<lambda>w. level (wordState toLowerCase p w))
                         (filter (plainKey toLowerCase p) ws)),
         dueToday := dueToday st +
           length (filter (\<lambda>w. reviewDue now (wordState toLowerCase p w))
                     (filter (plainKey toLowerCase p) ws)),
         newAvailable := newAvailable st +
           length (filter (\<lambda>w. newWord (wordState toLowerCase p w))
                     (filter (plainKey toLowerCase p) ws)),
         mastered := (increment ^^ length (filter (\<lambda>w. hasLevel 5 (wordState toLowerCase p w))
                                             (filter (plainKey toLowerCase p) ws)))
                       (mastered st) \<rparr>"
proof (induction ws arbitrary: st)
  case Nil
  then show ?case by simp
next
  case (Cons w ws)
  show ?case
  proof (cases "progressLearning p (toLowerCase (word w))")
    case PrototypeMember
    then show ?thesis
      by (simp add: Let_def Cons.IH plainKey_def wordValue_def)
  next
    case (Learning l)
    then show ?thesis
      by (simp add: Let_def Cons.IH plainKey_def wordValue_def wordState_def newWord_def
            reviewDue_def hasLevel_def funpow_swap1 split: option.split)
  qed
qed

lemma Notebook_statsLoop_eq:
  "Notebook_statsLoop now ws seen st =
     Inr (st\<lparr> byLevel := foldl bumpLevel (byLevel st) (map (\<lambda>w. level (learningOf w)) ws),
              dueToday := dueToday st +
                length (filter (\<lambda>w. level (learningOf w) \<noteq> Some 0 \<and> reviewDue now (learningOf w)) ws),
              newAvailable := newAvailable st + length (filter (\<lambda>w. newWord (learningOf w)) ws) \<rparr>,
          seen @ map ensureLearningFields ws)"
proof (induction ws arbitrary: seen st)
  case Nil
  then show ?case by simp
next
  case (Cons w ws)
  show ?case
    by (simp add: Let_def learning_ensure Cons.IH newWord_def reviewDue_def
          split: option.split)
qed

lemmas stats_defs =
  overLevelState_def newWithReviewState_def bumpLevel_def levelInRange_def
  newHasNoReviewTime_def

text \<open>
  Claim C6 gives the five statistics for every word set and both word sources. The
  notebook's query returns an object without \<open>mastered\<close>: for a notebook with two words of
  level 5 the property is absent, not 2. In the category store the word \<open>constructor\<close>
  without an entry in the progress file is counted in \<open>total\<close> only, the lookup finding
  \<open>Object.prototype.constructor\<close>: of two new words, \<open>byLevel[0]\<close> and \<open>newAvailable\<close>
  are 1. And two stored states that no review produces: a level of 7 extends \<open>byLevel\<close>
  beyond its six buckets, and a state of level 0 with a review time in the past is not
  counted in the notebook's \<open>dueToday\<close>, though the category store counts it.
\<close>

theorem C6_counterexample:
  "Notebook_getLearningStats 1000 smallNotebook =
     Inr (\<lparr> total' = 6, byLevel = [Count 2, Count 0, Count 1, Count 1, Count 0, Count 2],
            dueToday = 2, newAvailable = 2, mastered = Hole \<rparr>,
          map ensureLearningFields smallNotebook)
   \<and> length (filter (\<lambda>w. hasLevel 5 (learningOf w)) smallNotebook) = 2
   \<and> progressOf inheritedFiles ''cet4'' ''constructor'' = None
   \<and> getLearningStats asciiLower inheritedFiles 1000 ''cet4'' =
       Inr \<lparr> total' = 2, byLevel = [Count 1, Count 0, Count 0, Count 0, Count 0, Count 0],
             dueToday = 0, newAvailable = 1, mastered = Count 0 \<rparr>
   \<and> Notebook_getLearningStats 1000 [entry ''peak'' (Some overLevelState)] =
       Inr (\<lparr> total' = 1,
              byLevel = [Count 0, Count 0, Count 0, Count 0, Count 0, Count 0, Hole, NaN],
              dueToday = 0, newAvailable = 0, mastered = Hole \<rparr>,
            [entry ''peak'' (Some overLevelState)])
   \<and> reviewDue 1000 newWithReviewState
   \<and> Notebook_getLearningStats 1000 [entry ''dusk'' (Some newWithReviewState)] =
       Inr (\<lparr> total' = 1, byLevel = [Count 1, Count 0, Count 0, Count 0, Count 0, Count 0],
              dueToday = 0, newAvailable = 1, mastered = Hole \<rparr>,
            [entry ''dusk'' (Some newWithReviewState)])
   \<and> getLearningStats asciiLower
        \<lparr> wordListFile = [''cet4'' \<mapsto> [entry ''dusk'' None]],
          progressFile = [''cet4'' \<mapsto> [''dusk'' \<mapsto> newWithReviewState]] \<rparr> 1000 ''cet4'' =
       Inr \<lparr> total' = 1, byLevel = [Count 1, Count 0, Count 0, Count 0, Count 0, Count 0],
             dueToday = 1, newAvailable = 1, mastered = Count 0 \<rparr>"
proof -
  have a: "Notebook_getLearningStats 1000 smallNotebook =
     Inr (\<lparr> total' = 6, byLevel = [Count 2, Count 0, Count 1, Count 1, Count 0, Count 2],
            dueToday = 2, newAvailable = 2, mastered = Hole \<rparr>,
          map ensureLearningFields smallNotebook)"
    by (simp add: query_defs small_defs stats_defs)
  have b: "length (filter (\<lambda>w. hasLevel 5 (learningOf w)) smallNotebook) = 2"
    by (simp add: small_defs)
  have c: "progressOf inheritedFiles ''cet4'' ''constructor'' = None"
    by (simp add: malformed_defs)
  have d: "getLearningStats asciiLower inheritedFiles 1000 ''cet4'' =
       Inr \<lparr> total' = 2, byLevel = [Count 1, Count 0, Count 0, Count 0, Count 0, Count 0],
             dueToday = 0, newAvailable = 1, mastered = Count 0 \<rparr>"
    by (simp add: query_defs malformed_defs stats_defs)
  have e: "Notebook_getLearningStats 1000 [entry ''peak'' (Some overLevelState)] =
       Inr (\<lparr> total' = 1,
              byLevel = [Count 0, Count 0, Count 0, Count 0, Count 0, Count 0, Hole, NaN],
              dueToday = 0, newAvailable = 0, mastered = Hole \<rparr>,
            [entry ''peak'' (Some overLevelState)])"
    by (simp add: query_defs small_defs stats_defs)
  have f: "reviewDue 1000 newWithReviewState"
    by (simp add: small_defs stats_defs)
  have g: "Notebook_getLearningStats 1000 [entry ''dusk'' (Some newWithReviewState)] =
       Inr (\<lparr> total' = 1, byLevel = [Count 1, Count 0, Count 0, Count 0, Count 0, Count 0],
              dueToday = 0, newAvailable = 1, mastered = Hole \<rparr>,
            [entry ''dusk'' (Some newWithReviewState)])"
    by (simp add: query_defs small_defs stats_defs)
  have h: "getLearningStats asciiLower
        \<lparr> wordListFile = [''cet4'' \<mapsto> [entry ''dusk'' None]],
          progressFile = [''cet4'' \<mapsto> [''dusk'' \<mapsto> newWithReviewState]] \<rparr> 1000 ''cet4'' =
       Inr \<lparr> total' = 1, byLevel = [Count 1, Count 0, Count 0, Count 0, Count 0, Count 0],
             dueToday = 1, newAvailable = 1, mastered = Count 0 \<rparr>"
    by (simp add: query_defs small_defs stats_defs)
  from a b c d e f g h show ?thesis by blast
qed

text \<open>
  Claim C6, amended. For every word set in which no stored level is above 5, a stored
  state of level 0 has no review time, and no category word without an entry in the
  progress file is named like a member of \<open>Object.prototype\<close>, the statistics of either
  source are \<open>total\<close> = the number of words, \<open>byLevel\<close> = the histogram of the levels 0 to
  5 in six buckets, \<open>dueToday\<close> = the number of words whose next review is not after now,
  and \<open>newAvailable\<close> = the number of words of level 0. The category store's statistics
  have \<open>mastered\<close> = the number of words of level 5; the notebook's have no \<open>mastered\<close>
  property (the number of mastered words is \<open>byLevel[5]\<close>). This holds whatever
  \<open>toLowerCase\<close> does to a string.
\<close>

theorem C6_getLearningStats:
  assumes "category \<in> set CATEGORIES"
    and "wordListFile fs category = Some cws"
    and "\<forall>w \<in> set cws. plainKey toLowerCase (progressOf fs category) w
           \<and> levelInRange (wordState toLowerCase (progressOf fs category) w)"
    and "\<forall>w \<in> set ws. levelInRange (learningOf w) \<and> newHasNoReviewTime (learningOf w)"
  shows
    "getLearningStats toLowerCase fs now category =
       Inr \<lparr> total' = length cws,
             byLevel = map (\<lambda>k. Count (length (filter
                         (\<lambda>w. hasLevel k (wordState toLowerCase (progressOf fs category) w)) cws)))
                         [0..<6],
             dueToday = length (filter
                         (\<lambda>w. reviewDue now (wordState toLowerCase (progressOf fs category) w)) cws),
             newAvailable = length (filter
                         (\<lambda>w. newWord (wordState toLowerCase (progressOf fs category) w)) cws),
             mastered = Count (length (filter
                         (\<lambda>w. hasLevel 5 (wordState toLowerCase (progressOf fs category) w)) cws)) \<rparr>
     \<and> Notebook_getLearningStats now ws =
         Inr (\<lparr> total' = length ws,
                byLevel = map (\<lambda>k. Count (length (filter (\<lambda>w. hasLevel k (learningOf w)) ws)))
                            [0..<6],
                dueToday = length (filter (\<lambda>w. reviewDue now (learningOf w)) ws),
                newAvailable = length (filter (\<lambda>w. newWord (learningOf w)) ws),
                mastered = Hole \<rparr>,
              map ensureLearningFields ws)"
proof -
  let ?p = "progressOf fs category"
  let ?zero = "replicate 6 (0 :: nat)"
  have z: "[Count 0, Count 0, Count 0, Count 0, Count 0, Count 0] = map Count ?zero"
    by (simp add: numeral_eq_Suc)
  have plain: "filter (plainKey toLowerCase ?p) cws = cws"
    using assms(3) by (simp add: filter_id_conv)
  have hc: "foldl bumpLevel (map Count ?zero) (map (\<lambda>w. level (wordState toLowerCase ?p w)) cws) =
              map (\<lambda>k. Count (length (filter (\<lambda>w. hasLevel k (wordState toLowerCase ?p w)) cws)))
                [0..<6]"
    by (rule level_histogram) (use assms(3) in simp)
  have hn: "foldl bumpLevel (map Count ?zero) (map (\<lambda>w. level (learningOf w)) ws) =
              map (\<lambda>k. Count (length (filter (\<lambda>w. hasLevel k (learningOf w)) ws))) [0..<6]"
    by (rule level_histogram) (use assms(4) in simp)
  have due: "filter (\<lambda>w. level (learningOf w) \<noteq> Some 0 \<and> reviewDue now (learningOf w)) ws =
             filter (\<lambda>w. reviewDue now (learningOf w)) ws"
    by (rule filter_cong)
       (use assms(4) in \<open>auto simp add: newHasNoReviewTime_def reviewDue_def\<close>)
  have a: "getLearningStats toLowerCase fs now category =
       Inr \<lparr> total' = length cws,
             byLevel = map (\<lambda>k. Count (length (filter
                         (\<lambda>w. hasLevel k (wordState toLowerCase ?p w)) cws))) [0..<6],
             dueToday = length (filter (\<lambda>w. reviewDue now (wordState toLowerCase ?p w)) cws),
             newAvailable = length (filter (\<lambda>w. newWord (wordState toLowerCase ?p w)) cws),
             mastered = Count (length (filter
                         (\<lambda>w. hasLevel 5 (wordState toLowerCase ?p w)) cws)) \<rparr>"
    using assms(1)
    by (simp only: getLearningStats_def getWordList_def getProgress_def assms(2) z
          progressOf_def[symmetric])
       (simp add: statsLoop_eq plain hc[unfolded map_replicate] increment_funpow)
  have b: "Notebook_getLearningStats now ws =
         Inr (\<lparr> total' = length ws,
                byLevel = map (\<lambda>k. Count (length (filter (\<lambda>w. hasLevel k (learningOf w)) ws)))
                            [0..<6],
                dueToday = length (filter (\<lambda>w. reviewDue now (learningOf w)) ws),
                newAvailable = length (filter (\<lambda>w. newWord (learningOf w)) ws),
                mastered = Hole \<rparr>,
              map ensureLearningFields ws)"
    by (simp only: Notebook_getLearningStats_def Notebook_statsLoop_eq z due)
       (simp add: hn[unfolded map_replicate])
  from a b show ?thesis by blast
qed

theorem C6_witness:
  "getLearningStats asciiLower smallFiles 1000 ''cet6'' =
     Inr \<lparr> total' = 6, byLevel = [Count 2, Count 0, Count 1, Count 1, Count 0, Count 2],
           dueToday = 2, newAvailable = 2, mastered = Count 2 \<rparr>
   \<and> Notebook_getLearningStats 1000 smallNotebook =
       Inr (\<lparr> total' = 6, byLevel = [Count 2, Count 0, Count 1, Count 1, Count 0, Count 2],
              dueToday = 2, newAvailable = 2, mastered = Hole \<rparr>,
            map ensureLearningFields smallNotebook)"
proof -
  let ?p = "progressOf smallFiles ''cet6''"
  let ?cws = "map (\<lambda>w. entry (word w) None) smallNotebook"
  have h1: "''cet6'' \<in> set CATEGORIES" by (simp add: CATEGORIES_def)
  have h2: "wordListFile smallFiles ''cet6'' = Some ?cws" by (simp add: smallFiles_def)
  have h3: "\<forall>w \<in> set ?cws. plainKey asciiLower ?p w \<and> levelInRange (wordState asciiLower ?p w)"
    by (simp add: small_defs stats_defs)
  have h4: "\<forall>w \<in> set smallNotebook.
              levelInRange (learningOf w) \<and> newHasNoReviewTime (learningOf w)"
    by (simp add: small_defs stats_defs)
  have c: "\<lparr> total' = length ?cws,
             byLevel = map (\<lambda>k. Count (length (filter
                         (\<lambda>w. hasLevel k (wordState asciiLower ?p w)) ?cws))) [0..<6],
             dueToday = length (filter (\<lambda>w. reviewDue 1000 (wordState asciiLower ?p w)) ?cws),
             newAvailable = length (filter (\<lambda>w. newWord (wordState asciiLower ?p w)) ?cws),
             mastered = Count (length (filter
                          (\<lambda>w. hasLevel 5 (wordState asciiLower ?p w)) ?cws)) \<rparr>
         = \<lparr> total' = 6, byLevel = [Count 2, Count 0, Count 1, Count 1, Count 0, Count 2],
           dueToday = 2, newAvailable = 2, mastered = Count 2 \<rparr>"
    by (simp add: small_defs upt_rec)
  have n: "\<lparr> total' = length smallNotebook,
                byLevel = map (\<lambda>k. Count (length (filter (\<lambda>w. hasLevel k (learningOf w))
                                                   smallNotebook))) [0..<6],
                dueToday = length (filter (\<lambda>w. reviewDue 1000 (learningOf w)) smallNotebook),
                newAvailable = length (filter (\<lambda>w. newWord (learningOf w)) smallNotebook),
                mastered = Hole \<rparr>
         = \<lparr> total' = 6, byLevel = [Count 2, Count 0, Count 1, Count 1, Count 0, Count 2],
              dueToday = 2, newAvailable = 2, mastered = Hole \<rparr>"
    by (simp add: small_defs upt_rec)
  from C6_getLearningStats[OF h1 h2 h3 h4, of 1000]
  show ?thesis by (simp only: c n)
qed


end
